theory Spec2Isabelle
  imports Complex_Main
begin

section \<open>Floating-point values and arrays\<close>

text \<open>
  The estimator works on numpy arrays of floats.  A float is modelled as a real number or
  one of the three special values; rounding and the sign of zero are not modelled.  The
  special values matter to the pipeline: result arrays are allocated full of NaN and only
  the slots of genes with a non-zero count are written, every comparison with NaN is
  False, and \<open>np.maximum\<close>, \<open>np.minimum\<close> and \<open>np.clip\<close> hand NaN through.
\<close>

datatype fl = NaN | NInf | Fin real | PInf

fun isnan :: "fl \<Rightarrow> bool" where
  "isnan NaN = True"
| "isnan _ = False"

fun isinf :: "fl \<Rightarrow> bool" where
  "isinf NInf = True"
| "isinf PInf = True"
| "isinf _ = False"

fun fneg :: "fl \<Rightarrow> fl" where
  "fneg NaN = NaN"
| "fneg NInf = PInf"
| "fneg PInf = NInf"
| "fneg (Fin a) = Fin (- a)"

fun fadd :: "fl \<Rightarrow> fl \<Rightarrow> fl" where
  "fadd (Fin a) (Fin b) = Fin (a + b)"
| "fadd NaN _ = NaN"
| "fadd _ NaN = NaN"
| "fadd PInf NInf = NaN"
| "fadd NInf PInf = NaN"
| "fadd PInf _ = PInf"
| "fadd NInf _ = NInf"
| "fadd _ PInf = PInf"
| "fadd _ NInf = NInf"

definition fsub :: "fl \<Rightarrow> fl \<Rightarrow> fl" where
  "fsub a b = fadd a (fneg b)"

text \<open>The sign of a float: \<open>-1\<close>, \<open>0\<close> or \<open>1\<close>; NaN has none.\<close>

fun fsgn :: "fl \<Rightarrow> int" where
  "fsgn NaN = 0"
| "fsgn NInf = - 1"
| "fsgn PInf = 1"
| "fsgn (Fin a) = (if a < 0 then - 1 else if a = 0 then 0 else 1)"

definition inf_of_sign :: "int \<Rightarrow> fl" where
  "inf_of_sign s = (if s = 0 then NaN else if s < 0 then NInf else PInf)"

fun fmul :: "fl \<Rightarrow> fl \<Rightarrow> fl" where
  "fmul (Fin a) (Fin b) = Fin (a * b)"
| "fmul NaN _ = NaN"
| "fmul _ NaN = NaN"
| "fmul a b = inf_of_sign (fsgn a * fsgn b)"

fun fdiv :: "fl \<Rightarrow> fl \<Rightarrow> fl" where
  "fdiv (Fin a) (Fin b) = (if b = 0 then inf_of_sign (fsgn (Fin a)) else Fin (a / b))"
| "fdiv NaN _ = NaN"
| "fdiv _ NaN = NaN"
| "fdiv (Fin a) _ = Fin 0"
| "fdiv a (Fin b) = inf_of_sign (fsgn a * (if b < 0 then - 1 else 1))"
| "fdiv _ _ = NaN"

fun fless :: "fl \<Rightarrow> fl \<Rightarrow> bool" where
  "fless (Fin a) (Fin b) = (a < b)"
| "fless NInf (Fin _) = True"
| "fless NInf PInf = True"
| "fless (Fin _) PInf = True"
| "fless _ _ = False"

fun fle :: "fl \<Rightarrow> fl \<Rightarrow> bool" where
  "fle (Fin a) (Fin b) = (a \<le> b)"
| "fle NaN _ = False"
| "fle _ NaN = False"
| "fle NInf _ = True"
| "fle _ PInf = True"
| "fle _ _ = False"

definition fmaximum :: "fl \<Rightarrow> fl \<Rightarrow> fl" where
  "fmaximum a b = (if isnan a \<or> isnan b then NaN else if fless a b then b else a)"

definition fminimum :: "fl \<Rightarrow> fl \<Rightarrow> fl" where
  "fminimum a b = (if isnan a \<or> isnan b then NaN else if fless b a then b else a)"

text \<open>\<open>np.clip(x, lo, hi)\<close> is \<open>np.minimum(np.maximum(x, lo), hi)\<close>.\<close>

definition clip :: "fl \<Rightarrow> fl \<Rightarrow> fl \<Rightarrow> fl" where
  "clip x lo hi = fminimum (fmaximum x lo) hi"

fun fexp :: "fl \<Rightarrow> fl" where
  "fexp NaN = NaN"
| "fexp NInf = Fin 0"
| "fexp PInf = PInf"
| "fexp (Fin a) = Fin (exp a)"

fun flog :: "fl \<Rightarrow> fl" where
  "flog NaN = NaN"
| "flog NInf = NaN"
| "flog PInf = PInf"
| "flog (Fin a) = (if a < 0 then NaN else if a = 0 then NInf else Fin (ln a))"

fun fsqrt :: "fl \<Rightarrow> fl" where
  "fsqrt NaN = NaN"
| "fsqrt NInf = NaN"
| "fsqrt PInf = PInf"
| "fsqrt (Fin a) = (if a < 0 then NaN else Fin (sqrt a))"

fun fabs :: "fl \<Rightarrow> fl" where
  "fabs NaN = NaN"
| "fabs NInf = PInf"
| "fabs PInf = PInf"
| "fabs (Fin a) = Fin \<bar>a\<bar>"

definition fsq :: "fl \<Rightarrow> fl" where
  "fsq a = fmul a a"

definition of_count :: "int \<Rightarrow> fl" where
  "of_count c = Fin (real_of_int c)"

text \<open>
  \<open>astype(int)\<close> truncates towards zero.  On a value that is not finite numpy yields the
  smallest 64-bit integer.
\<close>

fun astype_int :: "fl \<Rightarrow> int" where
  "astype_int (Fin a) = (if a < 0 then \<lceil>a\<rceil> else \<lfloor>a\<rfloor>)"
| "astype_int _ = - (2 ^ 63)"

text \<open>
  A vector is a list, a matrix the list of its rows (one row per sample, one column per
  gene or per coefficient).  The arrays that meet in one elementwise operation are taken
  to have conforming shapes; numpy's own shape errors are not modelled.
\<close>

type_synonym vec = "fl list"
type_synonym mat = "fl list list"

definition shape0 :: "'a list list \<Rightarrow> nat" where
  "shape0 m = length m"

definition shape1 :: "'a list list \<Rightarrow> nat" where
  "shape1 m = (case m of [] \<Rightarrow> 0 | r # _ \<Rightarrow> length r)"

definition fsum :: "vec \<Rightarrow> fl" where
  "fsum xs = foldl fadd (Fin 0) xs"

definition dot :: "vec \<Rightarrow> vec \<Rightarrow> fl" where
  "dot u v = fsum (map2 fmul u v)"

definition matvec :: "mat \<Rightarrow> vec \<Rightarrow> vec" where
  "matvec m v = map (\<lambda>row. dot row v) m"

definition col :: "'a list list \<Rightarrow> nat \<Rightarrow> 'a list" where
  "col m j = map (\<lambda>row. row ! j) m"

definition mat_T :: "'a list list \<Rightarrow> 'a list list" where
  "mat_T m = map (col m) [0..<shape1 m]"

definition matmul :: "mat \<Rightarrow> mat \<Rightarrow> mat" where
  "matmul a b = map (\<lambda>row. map (\<lambda>j. dot row (col b j)) [0..<shape1 b]) a"

definition mat_add :: "mat \<Rightarrow> mat \<Rightarrow> mat" where
  "mat_add a b = map2 (map2 fadd) a b"

definition diag_of :: "mat \<Rightarrow> vec" where
  "diag_of m = map (\<lambda>i. m ! i ! i) [0..<length m]"

text \<open>\<open>np.diag(np.repeat(v, n))\<close>.\<close>

definition diag_mat :: "fl \<Rightarrow> nat \<Rightarrow> mat" where
  "diag_mat v n = map (\<lambda>i. map (\<lambda>j. if i = j then v else Fin 0) [0..<n]) [0..<n]"

text \<open>Fancy indexing \<open>m[:, idx]\<close> and \<open>v[idx]\<close>.\<close>

definition take_idx :: "'a list \<Rightarrow> nat list \<Rightarrow> 'a list" where
  "take_idx v idx = map (\<lambda>j. v ! j) idx"

definition cols :: "'a list list \<Rightarrow> nat list \<Rightarrow> 'a list list" where
  "cols m idx = map (\<lambda>row. take_idx row idx) m"

text \<open>Boolean indexing \<open>v[mask]\<close> and \<open>m[:, mask]\<close>.\<close>

definition sel_mask :: "bool list \<Rightarrow> 'a list \<Rightarrow> 'a list" where
  "sel_mask msk v = map snd (filter fst (zip msk v))"

definition sel_cols :: "bool list \<Rightarrow> 'a list list \<Rightarrow> 'a list list" where
  "sel_cols msk m = map (sel_mask msk) m"

text \<open>
  Boolean-mask assignment \<open>base[mask] = vals\<close>: the values are consumed in order by the
  slots where the mask is True, the other slots keep what they held.
\<close>

fun put_mask :: "bool list \<Rightarrow> 'a list \<Rightarrow> 'a list \<Rightarrow> 'a list" where
  "put_mask (True # ms) (b # bs) (v # vs) = v # put_mask ms bs vs"
| "put_mask (False # ms) (b # bs) vs = b # put_mask ms bs vs"
| "put_mask _ bs _ = bs"

definition put_cols :: "bool list \<Rightarrow> 'a list list \<Rightarrow> 'a list list \<Rightarrow> 'a list list" where
  "put_cols msk base vals = map2 (put_mask msk) base vals"

text \<open>Assignment of one scalar to the masked slots.\<close>

definition fill_mask :: "bool list \<Rightarrow> 'a list \<Rightarrow> 'a \<Rightarrow> 'a list" where
  "fill_mask msk base v = map2 (\<lambda>m b. if m then v else b) msk base"

definition full :: "nat \<Rightarrow> 'a \<Rightarrow> 'a list" where
  "full n v = replicate n v"

definition full2 :: "nat \<Rightarrow> nat \<Rightarrow> 'a \<Rightarrow> 'a list list" where
  "full2 n m v = replicate n (replicate m v)"

section \<open>Errors\<close>

datatype error =
    ValueError
  | KeyError
  | AttributeError
  | TypeError
  | IndexError
  | AssertionError
  | NotImplementedError

definition thenE :: "error + 'a \<Rightarrow> ('a \<Rightarrow> error + 'b) \<Rightarrow> error + 'b" where
  "thenE m f = (case m of Inl e \<Rightarrow> Inl e | Inr x \<Rightarrow> f x)"

text \<open>A dictionary entry or an attribute that a stage has not stored yet.\<close>

definition item :: "'a option \<Rightarrow> error + 'a" where
  "item v = (case v of None \<Rightarrow> Inl KeyError | Some x \<Rightarrow> Inr x)"

definition attr :: "'a option \<Rightarrow> error + 'a" where
  "attr v = (case v of None \<Rightarrow> Inl AttributeError | Some x \<Rightarrow> Inr x)"


definition mapE :: "('a \<Rightarrow> error + 'b) \<Rightarrow> 'a list \<Rightarrow> error + 'b list" where
  "mapE f xs = foldr (\<lambda>x acc. thenE (f x) (\<lambda>y. thenE acc (\<lambda>ys. Inr (y # ys)))) xs (Inr [])"

section \<open>The solver of one gene: \<open>irls_glm\<close> and \<open>grid_fit_beta\<close>\<close>

text \<open>
  The routines of numpy, scipy and pydeseq2 that the solver calls are parameters of the
  model; they are taken to be functions that return.
\<close>

datatype optimizer = BFGS | L_BFGS_B | Other_optimizer

record numlib =
  matrix_rank :: "mat \<Rightarrow> nat"
  qr :: "mat \<Rightarrow> mat \<times> mat"
  solve :: "mat \<Rightarrow> vec \<Rightarrow> vec"
  solve_pos :: "mat \<Rightarrow> vec \<Rightarrow> vec"
  inv :: "mat \<Rightarrow> mat"
  minimize :: "(vec \<Rightarrow> fl) \<Rightarrow> (vec \<Rightarrow> vec) \<Rightarrow> vec \<Rightarrow> optimizer \<Rightarrow> (fl \<times> fl) list option
                 \<Rightarrow> vec \<times> bool"
  nb_nll :: "int list \<Rightarrow> vec \<Rightarrow> fl \<Rightarrow> fl"
  vec_nb_nll :: "int list \<Rightarrow> mat \<Rightarrow> fl \<Rightarrow> vec"

definition linspace :: "fl \<Rightarrow> fl \<Rightarrow> nat \<Rightarrow> vec" where
  "linspace start stop num =
     (if num = 1 then [start]
      else map (\<lambda>i. fadd start (fmul (Fin (real i)) (fdiv (fsub stop start) (Fin (real (num - 1))))))
             [0..<num])"

text \<open>\<open>np.argmin\<close>: the first NaN if there is one, else the first least entry.\<close>

definition argmin :: "vec \<Rightarrow> nat" where
  "argmin xs =
     (if list_ex isnan xs then length (takeWhile (\<lambda>x. \<not> isnan x) xs)
      else length (takeWhile (\<lambda>x. list_ex (\<lambda>y. fless y x) xs) xs))"

text \<open>
  Python binds arguments by position whatever they hold, so the three array arguments of
  \<open>grid_fit_beta\<close> that \<open>irls_glm\<close> passes out of order are dynamically typed here.
\<close>

datatype pyval = Scalar fl | Vec vec | Mat mat

text \<open>
  The closure \<open>loss\<close> of \<open>grid_fit_beta\<close>, on a batch of coefficient pairs.  It first
  evaluates \<open>cnv[:, None]\<close>, which raises on a scalar.  Only the combination of argument
  types that the signature declares is traced further.
\<close>

definition grid_loss ::
  "numlib \<Rightarrow> int list \<Rightarrow> vec \<Rightarrow> pyval \<Rightarrow> pyval \<Rightarrow> pyval \<Rightarrow> fl \<Rightarrow> mat \<Rightarrow> error + vec" where
  "grid_loss N counts size_factors design_matrix disp cnv min_mu betas =
     (case cnv of
        Scalar _ \<Rightarrow> Inl IndexError
      | Mat _ \<Rightarrow> Inl TypeError
      | Vec c \<Rightarrow>
          (case (design_matrix, disp) of
             (Mat X, Scalar d) \<Rightarrow>
               (let mu = map (\<lambda>(ci, si, row).
                               map (\<lambda>b. fmaximum (fmul (fmul ci si) (fexp (dot row b))) min_mu) betas)
                             (zip c (zip size_factors X))
                in Inr (map2 fadd (vec_nb_nll N counts mu d)
                          (map (\<lambda>b. fmul (Fin 0.5) (fsum (map (\<lambda>x. fmul (Fin 0.000001) (fsq x)) b)))
                             betas)))
           | _ \<Rightarrow> Inl TypeError))"

definition grid_rows ::
  "numlib \<Rightarrow> int list \<Rightarrow> vec \<Rightarrow> pyval \<Rightarrow> pyval \<Rightarrow> pyval \<Rightarrow> fl \<Rightarrow> vec \<Rightarrow> vec \<Rightarrow> error + mat" where
  "grid_rows N counts size_factors design_matrix disp cnv min_mu xg yg =
     mapE (\<lambda>x. grid_loss N counts size_factors design_matrix disp cnv min_mu (map (\<lambda>y. [x, y]) yg))
       xg"

definition grid_fit_beta ::
  "numlib \<Rightarrow> int list \<Rightarrow> vec \<Rightarrow> pyval \<Rightarrow> pyval \<Rightarrow> pyval \<Rightarrow> fl \<Rightarrow> nat \<Rightarrow> fl \<Rightarrow> fl \<Rightarrow> error + vec"
  where
  "grid_fit_beta N counts size_factors design_matrix disp cnv min_mu grid_length min_beta max_beta =
     (let x_grid = linspace min_beta max_beta grid_length;
          y_grid = linspace min_beta max_beta grid_length
      in thenE (grid_rows N counts size_factors design_matrix disp cnv min_mu x_grid y_grid)
        (\<lambda>ll_grid.
          if grid_length = 0 then Inl ValueError
          else if grid_length = 1 then Inl IndexError
          else
            let k = argmin (concat ll_grid);
                i0 = k div grid_length;
                j0 = k mod grid_length;
                delta = fsub (x_grid ! 1) (x_grid ! 0);
                fine_x_grid =
                  linspace (fsub (x_grid ! i0) delta) (fadd (x_grid ! i0) delta) grid_length;
                fine_y_grid =
                  linspace (fsub (y_grid ! j0) delta) (fadd (y_grid ! j0) delta) grid_length
            in thenE
                 (grid_rows N counts size_factors design_matrix disp cnv min_mu fine_x_grid fine_y_grid)
                 (\<lambda>ll_fine.
                    let k1 = argmin (concat ll_fine)
                    in Inr [fine_x_grid ! (k1 div grid_length), fine_y_grid ! (k1 mod grid_length)])))"

record irls_args =
  counts :: "int list"
  size_factors :: vec
  design_matrix :: mat
  cnv :: vec
  disp :: fl
  min_mu :: fl
  beta_tol :: fl
  min_beta :: fl
  max_beta :: fl
  optimizer :: optimizer
  maxiter :: int

text \<open>\<open>np.maximum(cnv * size_factors * np.exp(X @ beta), min_mu)\<close>.\<close>

definition mu_of :: "irls_args \<Rightarrow> vec \<Rightarrow> vec" where
  "mu_of a beta =
     map (\<lambda>(c, s, e). fmaximum (fmul (fmul c s) (fexp e)) (min_mu a))
       (zip (cnv a) (zip (size_factors a) (matvec (design_matrix a) beta)))"

definition ridge_factor :: "irls_args \<Rightarrow> mat" where
  "ridge_factor a = diag_mat (Fin 0.000001) (shape1 (design_matrix a))"

text \<open>\<open>W = mu / (1.0 + mu * disp)\<close> and \<open>(X.T * W) @ X + ridge_factor\<close>.\<close>

definition weights :: "irls_args \<Rightarrow> vec \<Rightarrow> vec" where
  "weights a mu = map (\<lambda>m. fdiv m (fadd (Fin 1) (fmul m (disp a)))) mu"

definition XtWX :: "irls_args \<Rightarrow> vec \<Rightarrow> mat" where
  "XtWX a W =
     mat_add (matmul (map (\<lambda>r. map2 fmul r W) (mat_T (design_matrix a))) (design_matrix a))
       (ridge_factor a)"

definition beta_init_of :: "numlib \<Rightarrow> irls_args \<Rightarrow> error + vec" where
  "beta_init_of N a =
     (let X = design_matrix a; num_vars = shape1 X
      in if matrix_rank N X = num_vars then
           let (Q, R) = qr N X;
               y = map (\<lambda>(k, c, s). flog (fadd (fdiv (fdiv (of_count k) c) s) (Fin 0.1)))
                     (zip (counts a) (zip (cnv a) (size_factors a)))
           in Inr (solve N R (matvec (mat_T Q) y))
         else if num_vars = 0 then Inl IndexError
         else
           let l = map (\<lambda>(k, c, s). flog (fdiv (fdiv (of_count k) c) s))
                     (zip (counts a) (zip (cnv a) (size_factors a)))
           in Inr ((replicate num_vars (Fin 0))[0 := fdiv (fsum l) (Fin (real (length l)))]))"

text \<open>The closures \<open>f\<close> and \<open>df\<close> handed to \<open>minimize\<close>.\<close>

definition nll_f :: "numlib \<Rightarrow> irls_args \<Rightarrow> vec \<Rightarrow> fl" where
  "nll_f N a beta =
     fadd (nb_nll N (counts a) (mu_of a beta) (disp a))
       (fmul (Fin 0.5) (fsum (matvec (ridge_factor a) (map fsq beta))))"

definition nll_df :: "irls_args \<Rightarrow> vec \<Rightarrow> vec" where
  "nll_df a beta =
     (let X = design_matrix a;
          mu' = mu_of a beta;
          invd = fdiv (Fin 1) (disp a)
      in map2 fadd
           (map2 fadd (map fneg (matvec (mat_T X) (map of_count (counts a))))
              (matvec (mat_T X)
                 (map2 (\<lambda>k m. fdiv (fmul (fadd invd (of_count k)) m) (fadd invd m)) (counts a) mu')))
           (matvec (ridge_factor a) beta))"

text \<open>
  Which of the two fallbacks a run of \<open>irls_glm\<close> has called is kept beside its result.
\<close>

datatype call = Minimize | Grid_fit

text \<open>
  The branch taken when the iteration diverges or reaches \<open>maxiter\<close>: the call of
  \<open>minimize\<close>, whose \<open>res.x\<close> and \<open>res.success\<close> are the pair returned, and then the
  grid search.  The call of the
  grid search is \<open>grid_fit_beta(counts, size_factors, cnv, X, disp)\<close>, against the
  parameters \<open>(counts, size_factors, design_matrix, disp, cnv)\<close>, with the defaults
  of the remaining ones.
\<close>

definition quasi_newton :: "numlib \<Rightarrow> irls_args \<Rightarrow> vec \<Rightarrow> vec \<times> bool" where
  "quasi_newton N a beta_init =
     minimize N (nll_f N a) (nll_df a) beta_init (optimizer a)
       (if optimizer a = L_BFGS_B
        then Some (replicate (shape1 (design_matrix a)) (min_beta a, max_beta a)) else None)"

definition fallback :: "numlib \<Rightarrow> irls_args \<Rightarrow> vec \<Rightarrow> call list \<times> (error + vec \<times> vec \<times> bool)" where
  "fallback N a beta_init =
     (let num_vars = shape1 (design_matrix a);
          (x, success) = quasi_newton N a beta_init
      in if \<not> success \<and> num_vars \<le> 2 then
           ([Minimize, Grid_fit],
            thenE (grid_fit_beta N (counts a) (size_factors a) (Vec (cnv a)) (Mat (design_matrix a))
                     (Scalar (disp a)) (Fin 0.5) 60 (Fin (- 30)) (Fin 30))
              (\<lambda>beta. Inr (beta, mu_of a beta, success)))
         else ([Minimize], Inr (x, mu_of a x, success)))"

function irls_loop ::
  "numlib \<Rightarrow> irls_args \<Rightarrow> vec \<Rightarrow> vec \<Rightarrow> vec \<Rightarrow> fl \<Rightarrow> fl \<Rightarrow> nat
     \<Rightarrow> call list \<times> (error + vec \<times> vec \<times> bool)" where
  "irls_loop N a beta_init beta mu dev dev_ratio i =
     (if fless (beta_tol a) dev_ratio then
        (let W = weights a mu;
             z = map (\<lambda>(m, c, s, k).
                        fadd (flog (fdiv (fdiv m c) s)) (fdiv (fsub (of_count k) m) m))
                   (zip mu (zip (cnv a) (zip (size_factors a) (counts a))));
             beta_hat = solve_pos N (XtWX a W) (matvec (mat_T (design_matrix a)) (map2 fmul W z))
         in if list_ex (\<lambda>b. fless (max_beta a) (fabs b)) beta_hat \<or> maxiter a \<le> int (Suc i)
            then fallback N a beta_init
            else
              (let mu' = mu_of a beta_hat;
                   dev' = fmul (Fin (- 2)) (nb_nll N (counts a) mu' (disp a))
               in irls_loop N a beta_init beta_hat mu' dev'
                    (fdiv (fabs (fsub dev' dev)) (fadd (fabs dev') (Fin 0.1))) (Suc i)))
      else ([], Inr (beta, mu, True)))"
  by pat_completeness auto
termination
  by (relation "measure (\<lambda>(N, a, beta_init, beta, mu, dev, dev_ratio, i). nat (maxiter a - int i))")
    auto

declare irls_loop.simps [simp del]

record irls_result =
  res_beta :: vec
  res_mu :: vec
  res_H :: vec
  res_converged :: bool

definition irls_glm_traced :: "numlib \<Rightarrow> irls_args \<Rightarrow> call list \<times> (error + irls_result)" where
  "irls_glm_traced N a =
     (if optimizer a \<noteq> BFGS \<and> optimizer a \<noteq> L_BFGS_B then ([], Inl AssertionError)
      else
        (case beta_init_of N a of
           Inl e \<Rightarrow> ([], Inl e)
         | Inr beta_init \<Rightarrow>
             (let (tr, r) = irls_loop N a beta_init beta_init (mu_of a beta_init) (Fin 1000) (Fin 1) 0
              in (tr,
                  thenE r (\<lambda>(beta, mu, converged).
                    let X = design_matrix a;
                        W = weights a mu;
                        W_sq = map fsqrt W;
                        H = map2 fmul (map2 fmul W_sq
                                         (diag_of (matmul (matmul X (inv N (XtWX a W))) (mat_T X))))
                              W_sq
                    in Inr \<lparr>res_beta = beta, res_mu = mu, res_H = H, res_converged = converged\<rparr>)))))"

definition irls_glm :: "numlib \<Rightarrow> irls_args \<Rightarrow> error + irls_result" where
  "irls_glm N a = snd (irls_glm_traced N a)"

text \<open>
  What the comment at the return of \<open>irls_glm\<close> announces: the mean without the
  \<open>min_mu\<close> floor.
\<close>

definition unthresholded_mu :: "irls_args \<Rightarrow> vec \<Rightarrow> vec" where
  "unthresholded_mu a beta =
     map (\<lambda>(c, s, e). fmul (fmul c s) (fexp e))
       (zip (cnv a) (zip (size_factors a) (matvec (design_matrix a) beta)))"

text \<open>
  A library for a design of one sample and one column, where every routine of linear
  algebra is a closed form, and whose optimiser reports failure.
\<close>

definition lib_1x1 :: numlib where
  "lib_1x1 =
     \<lparr>matrix_rank = (\<lambda>X. if list_ex (list_ex (\<lambda>x. x \<noteq> Fin 0)) X then 1 else 0),
      qr = (\<lambda>X. ([[Fin 1]], X)),
      solve = (\<lambda>R b. map2 (\<lambda>r x. fdiv x (r ! 0)) R b),
      solve_pos = (\<lambda>R b. map2 (\<lambda>r x. fdiv x (r ! 0)) R b),
      inv = (\<lambda>m. map (map (\<lambda>x. fdiv (Fin 1) x)) m),
      minimize = (\<lambda>f df x0 opt bounds. (x0, False)),
      nb_nll = (\<lambda>c mu d. Fin 0),
      vec_nb_nll = (\<lambda>c mu d. replicate (shape1 mu) (Fin 0))\<rparr>"

text \<open>
  One sample with a zero count, an intercept-only design, and a tolerance above the
  initial deviance ratio \<open>1.0\<close>, so that the iteration is not entered.
\<close>

definition args_low :: irls_args where
  "args_low =
     \<lparr>counts = [0], size_factors = [Fin 1], design_matrix = [[Fin 1]], cnv = [Fin 1],
      disp = Fin 1, min_mu = Fin 0.5, beta_tol = Fin 2, min_beta = Fin (- 30),
      max_beta = Fin 30, optimizer = L_BFGS_B, maxiter = 250\<rparr>"

text \<open>The same gene with the default tolerance and a single iteration allowed.\<close>

definition args_one_iter :: irls_args where
  "args_one_iter =
     \<lparr>counts = [0], size_factors = [Fin 1], design_matrix = [[Fin 1]], cnv = [Fin 1],
      disp = Fin 1, min_mu = Fin 0.5, beta_tol = Fin 0.00000001, min_beta = Fin (- 30),
      max_beta = Fin 30, optimizer = L_BFGS_B, maxiter = 1\<rparr>"

section \<open>The estimator object: \<open>deconveil_fit\<close>\<close>

text \<open>
  The routines of pydeseq2, scipy and pandas that the class calls are parameters of the
  model, and so are the routines of the inference object, which the constructor takes
  as an argument.  All of them are taken to be functions that return.  Sample metadata
  and what the design-matrix builder makes of it are opaque: \<open>'m\<close> stands for the
  metadata table.
\<close>

datatype trend = Parametric | Mean | Other_trend

record 'm pylib =
  test_valid_counts :: "int list list \<Rightarrow> bool"
  build_design_matrix :: "'m \<Rightarrow> string list \<Rightarrow> string list option \<Rightarrow> string list option \<Rightarrow> error + mat"
  deseq2_norm_fit :: "int list list \<Rightarrow> vec \<times> bool list"
  deseq2_norm_transform :: "int list list \<Rightarrow> vec \<Rightarrow> bool list \<Rightarrow> mat \<times> vec"
  frame_mean0 :: "mat \<Rightarrow> vec"
  dispersion_trend :: "vec \<Rightarrow> vec \<Rightarrow> vec"
  mean_absolute_deviation :: "vec \<Rightarrow> fl"
  polygamma1 :: "fl \<Rightarrow> fl"
  trim_mean :: "vec \<Rightarrow> fl \<Rightarrow> fl"
  trimmed_mean :: "mat \<Rightarrow> fl \<Rightarrow> vec"
  robust_method_of_moments_disp :: "mat \<Rightarrow> mat \<Rightarrow> vec"
  f_ppf :: "fl \<Rightarrow> nat \<Rightarrow> int \<Rightarrow> fl"
  n_or_more_replicates :: "mat \<Rightarrow> int \<Rightarrow> bool list"

text \<open>
  The inference object.  \<open>inf_irls_glm\<close> is its method \<open>irls_glm\<close>, called with the
  keyword arguments \<open>counts\<close>, \<open>cnv\<close>, \<open>size_factors\<close>, \<open>design_matrix\<close>, \<open>disp\<close>,
  \<open>min_mu\<close>, \<open>beta_tol\<close> in this order, on all genes at once.  The last argument of
  \<open>alpha_mle\<close> holds \<open>prior_disp_var\<close>, \<open>cr_reg\<close> and \<open>prior_reg\<close> when the call
  passes them.  The gamma GLM of the trend takes the covariates and the targets as
  series labelled by the position of the gene among the non-zero genes.
\<close>

record inference =
  lin_reg_mu :: "int list list \<Rightarrow> vec \<Rightarrow> mat \<Rightarrow> fl \<Rightarrow> mat"
  inf_irls_glm :: "int list list \<Rightarrow> mat \<Rightarrow> vec \<Rightarrow> mat \<Rightarrow> vec \<Rightarrow> fl \<Rightarrow> fl
                     \<Rightarrow> mat \<times> mat \<times> mat \<times> bool list"
  alpha_mle :: "int list list \<Rightarrow> mat \<Rightarrow> mat \<Rightarrow> vec \<Rightarrow> fl \<Rightarrow> fl \<Rightarrow> (fl \<times> bool \<times> bool) option
                  \<Rightarrow> vec \<times> bool list"
  fit_rough_dispersions :: "mat \<Rightarrow> mat \<Rightarrow> vec"
  fit_moments_dispersions2 :: "mat \<Rightarrow> vec \<Rightarrow> vec"
  dispersion_trend_gamma_glm :: "(nat \<times> fl) list \<Rightarrow> (nat \<times> fl) list \<Rightarrow> vec \<times> vec \<times> bool"

text \<open>The keyword arguments of the constructor.\<close>

record 'm init_args =
  a_counts :: "int list list"
  a_cnv :: mat
  a_metadata :: 'm
  a_design_factors :: "string list"
  a_continuous_factors :: "string list option"
  a_ref_level :: "string list option"
  a_fit_type :: trend
  a_min_mu :: fl
  a_min_disp :: fl
  a_max_disp :: fl
  a_refit_cooks :: bool
  a_min_replicates :: int
  a_beta_tol :: fl

text \<open>
  The object.  A field named after a dictionary (\<open>data\<close>, \<open>obsm\<close>, \<open>varm\<close>, \<open>layers\<close>,
  \<open>uns\<close>) is the entry of that dictionary, a field named \<open>self_\<close> an attribute; an entry
  or attribute that no stage has stored yet is \<open>None\<close>.  Gene labels are taken to be
  distinct and plain (no multi-index), so that a gene is named by its column.  \<open>calculate_cooks\<close> replaces the count
  table and the normalised counts by plain arrays, on which the pandas methods that the
  stages call no longer exist; the two flags record that.
\<close>

record 'm dds =
  data_counts :: "int list list"
  counts_is_ndarray :: bool
  data_cnv :: mat
  self_metadata :: 'm
  self_design_factors :: "string list"
  self_continuous_factors :: "string list option"
  self_ref_level :: "string list option"
  self_fit_type :: trend
  obsm_design_matrix :: mat
  self_min_mu :: fl
  self_min_disp :: fl
  self_max_disp :: fl
  self_n_obs :: nat
  self_n_vars :: nat
  self_refit_cooks :: bool
  self_min_replicates :: int
  self_beta_tol :: fl
  self_logmeans :: "vec option"
  self_filtered_genes :: "bool list option"
  obsm_size_factors :: "vec option"
  layers_normed_counts :: "mat option"
  normed_counts_is_ndarray :: bool
  varm_normed_means :: "vec option"
  varm_non_zero :: "bool list option"
  self_non_zero_idx :: "nat list option"
  varm_MoM_dispersions :: "vec option"
  layers_mu_hat :: "mat option"
  varm_genewise_dispersions :: "vec option"
  varm_genewise_converged :: "vec option"
  uns_trend_coeffs :: "vec option"
  uns_mean_disp :: "fl option"
  uns_disp_function_type :: "trend option"
  varm_fitted_dispersions :: "vec option"
  uns_squared_logres :: "fl option"
  uns_prior_disp_var :: "fl option"
  varm_MAP_dispersions :: "vec option"
  varm_MAP_converged :: "vec option"
  varm_dispersions :: "vec option"
  varm_outlier_genes :: "bool list option"
  varm_LFC :: "mat option"
  obsm_mu_LFC :: "mat option"
  obsm_hat_diagonals :: "mat option"
  varm_LFC_converged :: "vec option"
  layers_cooks :: "mat option"
  obsm_replaceable :: "bool list option"
  varm_replaced :: "bool list option"
  self_counts_to_refit :: "int list list option"
  varm_refitted :: "bool list option"
  layers_replace_cooks :: "mat option"

definition flag :: "bool \<Rightarrow> fl" where
  "flag b = (if b then Fin 1 else Fin 0)"

subsection \<open>\<open>__init__\<close>\<close>

definition init :: "'m pylib \<Rightarrow> 'm init_args \<Rightarrow> error + 'm dds" where
  "init L a =
     (if shape0 (a_counts a) \<noteq> shape0 (a_cnv a) \<and> shape1 (a_counts a) \<noteq> shape1 (a_cnv a)
      then Inl ValueError
      else if \<not> test_valid_counts L (a_counts a) then Inl ValueError
      else thenE (build_design_matrix L (a_metadata a) (a_design_factors a)
                    (a_continuous_factors a) (a_ref_level a))
        (\<lambda>dm. Inr
          \<lparr>data_counts = a_counts a,
           counts_is_ndarray = False,
           data_cnv = a_cnv a,
           self_metadata = a_metadata a,
           self_design_factors = a_design_factors a,
           self_continuous_factors = a_continuous_factors a,
           self_ref_level = a_ref_level a,
           self_fit_type = a_fit_type a,
           obsm_design_matrix = dm,
           self_min_mu = a_min_mu a,
           self_min_disp = a_min_disp a,
           self_max_disp = fmaximum (a_max_disp a) (Fin (real (shape0 (a_counts a)))),
           self_n_obs = shape0 (a_counts a),
           self_n_vars = shape1 (a_counts a),
           self_refit_cooks = a_refit_cooks a,
           self_min_replicates = a_min_replicates a,
           self_beta_tol = a_beta_tol a,
           self_logmeans = None,
           self_filtered_genes = None,
           obsm_size_factors = None,
           layers_normed_counts = None,
           normed_counts_is_ndarray = False,
           varm_normed_means = None,
           varm_non_zero = None,
           self_non_zero_idx = None,
           varm_MoM_dispersions = None,
           layers_mu_hat = None,
           varm_genewise_dispersions = None,
           varm_genewise_converged = None,
           uns_trend_coeffs = None,
           uns_mean_disp = None,
           uns_disp_function_type = None,
           varm_fitted_dispersions = None,
           uns_squared_logres = None,
           uns_prior_disp_var = None,
           varm_MAP_dispersions = None,
           varm_MAP_converged = None,
           varm_dispersions = None,
           varm_outlier_genes = None,
           varm_LFC = None,
           obsm_mu_LFC = None,
           obsm_hat_diagonals = None,
           varm_LFC_converged = None,
           layers_cooks = None,
           obsm_replaceable = None,
           varm_replaced = None,
           self_counts_to_refit = None,
           varm_refitted = None,
           layers_replace_cooks = None\<rparr>))"

subsection \<open>Size factors\<close>

text \<open>
  \<open>_fit_iterate_size_factors\<close> stores unit size factors and the raw counts, and then reads
  \<open>self.obs_names\<close>, an attribute that the class never sets: it raises before it fits
  anything.
\<close>

definition fit_iterate_size_factors :: "'m dds \<Rightarrow> error + 'm dds" where
  "fit_iterate_size_factors s = Inl AttributeError"

text \<open>
  \<open>fit_size_factors\<close> with its default arguments, as every call in the class has them.
  On a data frame \<open>(counts == 0).any().all()\<close> asks for a zero in every gene; on a plain
  array it asks for a zero anywhere.
\<close>

definition fit_size_factors :: "'m pylib \<Rightarrow> 'm dds \<Rightarrow> error + 'm dds" where
  "fit_size_factors L s =
     (let counts = data_counts s
      in if (if counts_is_ndarray s then list_ex (list_ex (\<lambda>c. c = 0)) counts
             else list_all (\<lambda>j. list_ex (\<lambda>r. r ! j = 0) counts) [0..<shape1 counts])
         then fit_iterate_size_factors s
         else
           (let (logmeans, filtered_genes) = deseq2_norm_fit L counts;
                control_mask = map2 (\<and>) (replicate (shape1 counts) True) filtered_genes;
                (normed_counts, size_factors) = deseq2_norm_transform L counts logmeans control_mask
            in Inr (s\<lparr>self_logmeans := Some logmeans,
                      self_filtered_genes := Some filtered_genes,
                      layers_normed_counts := Some normed_counts,
                      normed_counts_is_ndarray := counts_is_ndarray s,
                      obsm_size_factors := Some size_factors,
                      varm_normed_means := Some (frame_mean0 L normed_counts)\<rparr>)))"

subsection \<open>Gene-wise dispersions\<close>

text \<open>
  Each stage first runs the stage before it when its result is missing.  What a stage
  does after that is a definition of its own, named \<open>..._core\<close>.
\<close>

definition MoM_core :: "inference \<Rightarrow> 'm dds \<Rightarrow> error + 'm dds" where
  "MoM_core I s =
     thenE (item (layers_normed_counts s)) (\<lambda>normed_counts.
     thenE (item (obsm_size_factors s)) (\<lambda>size_factors.
     thenE (item (varm_non_zero s)) (\<lambda>non_zero.
       let rde = fit_rough_dispersions I normed_counts (obsm_design_matrix s);
           mde = fit_moments_dispersions2 I normed_counts size_factors;
           alpha_hat = map2 fminimum rde mde
       in Inr (s\<lparr>varm_MoM_dispersions :=
                   Some (put_mask non_zero (full (self_n_vars s) NaN)
                           (map (\<lambda>x. clip x (self_min_disp s) (self_max_disp s)) alpha_hat))\<rparr>))))"

definition fit_MoM_dispersions :: "'m pylib \<Rightarrow> inference \<Rightarrow> 'm dds \<Rightarrow> error + 'm dds" where
  "fit_MoM_dispersions L I s0 =
     thenE (if layers_normed_counts s0 = None then fit_size_factors L s0 else Inr s0) (MoM_core I)"

text \<open>
  \<open>len(design_matrix.value_counts()) == design_matrix.shape[-1]\<close>: the number of distinct
  rows (rows holding a NaN are not counted) against the number of columns.
\<close>

definition distinct_rows_eq_columns :: "mat \<Rightarrow> bool" where
  "distinct_rows_eq_columns dm =
     (length (remdups (filter (\<lambda>r. \<not> list_ex isnan r) dm)) = shape1 dm)"

text \<open>The mask of the genes with a count, and the object with the mask stored.\<close>

definition non_zero_mask :: "'m dds \<Rightarrow> bool list" where
  "non_zero_mask s = map (\<lambda>j. \<not> list_all (\<lambda>r. r ! j = 0) (data_counts s)) [0..<self_n_vars s]"

definition set_non_zero :: "'m dds \<Rightarrow> 'm dds" where
  "set_non_zero s =
     s\<lparr>varm_non_zero := Some (non_zero_mask s),
       self_non_zero_idx := Some (filter (\<lambda>j. non_zero_mask s ! j) [0..<self_n_vars s])\<rparr>"

text \<open>\<open>fit_genewise_dispersions\<close> at \<open>vst = False\<close>, after the method of moments.\<close>

definition genewise_core :: "inference \<Rightarrow> 'm dds \<Rightarrow> error + 'm dds" where
  "genewise_core I s =
     (if counts_is_ndarray s then Inl AttributeError
      else
     thenE (attr (self_non_zero_idx s)) (\<lambda>non_zero_idx.
     thenE (item (obsm_size_factors s)) (\<lambda>size_factors.
     thenE (item (varm_MoM_dispersions s)) (\<lambda>mom.
     thenE (item (varm_non_zero s)) (\<lambda>non_zero.
       let design_matrix = obsm_design_matrix s;
           counts = data_counts s;
           cnv = data_cnv s;
           mu_hat' =
             (if distinct_rows_eq_columns design_matrix
              then lin_reg_mu I (cols counts non_zero_idx) size_factors design_matrix (self_min_mu s)
              else fst (snd (inf_irls_glm I (cols counts non_zero_idx) (cols cnv non_zero_idx)
                               size_factors design_matrix (take_idx mom non_zero_idx)
                               (self_min_mu s) (self_beta_tol s))));
           mu_hat = put_cols non_zero (full2 (self_n_obs s) (self_n_vars s) NaN) mu_hat';
           (dispersions', converged') =
             alpha_mle I (cols counts non_zero_idx) design_matrix (cols mu_hat non_zero_idx)
               (take_idx mom non_zero_idx) (self_min_disp s) (self_max_disp s) None
       in Inr (s\<lparr>layers_mu_hat := Some mu_hat,
                 varm_genewise_dispersions :=
                   Some (put_mask non_zero (full (self_n_vars s) NaN)
                           (map (\<lambda>x. clip x (self_min_disp s) (self_max_disp s)) dispersions')),
                 varm_genewise_converged :=
                   Some (put_mask non_zero (full (self_n_vars s) NaN) (map flag converged'))\<rparr>))))))"

definition fit_genewise_dispersions :: "'m pylib \<Rightarrow> inference \<Rightarrow> 'm dds \<Rightarrow> error + 'm dds" where
  "fit_genewise_dispersions L I s0 =
     thenE (if obsm_size_factors s0 = None then fit_size_factors L s0 else Inr s0) (\<lambda>s1.
     thenE (fit_MoM_dispersions L I (set_non_zero s1)) (genewise_core I))"

subsection \<open>Dispersion trend\<close>

definition fit_mean_dispersion_trend :: "'m pylib \<Rightarrow> 'm dds \<Rightarrow> error + 'm dds" where
  "fit_mean_dispersion_trend L s =
     thenE (item (varm_genewise_dispersions s)) (\<lambda>genewise.
       let mean_disp =
             trim_mean L (filter (\<lambda>x. fless (fmul (Fin 10) (self_min_disp s)) x) genewise)
               (Fin 0.001)
       in Inr (s\<lparr>uns_mean_disp := Some mean_disp,
                 uns_disp_function_type := Some Mean,
                 varm_fitted_dispersions := Some (full (self_n_vars s) mean_disp)\<rparr>))"

text \<open>
  \<open>disp_function\<close>: when the stored type is not \<open>"parametric"\<close> the second test reads
  \<open>self.disp_function_type\<close>, an attribute that is never set.
\<close>

definition disp_function :: "'m pylib \<Rightarrow> 'm dds \<Rightarrow> vec \<Rightarrow> error + vec" where
  "disp_function L s x =
     thenE (item (uns_disp_function_type s)) (\<lambda>t.
       if t = Parametric
       then thenE (item (uns_trend_coeffs s)) (\<lambda>coeffs. Inr (dispersion_trend L x coeffs))
       else Inl AttributeError)"

text \<open>
  The loop of \<open>_fit_parametric_dispersion_trend\<close>.  The targets and the covariates are
  two series over the same genes, dropped together, so they are kept as one list of
  (position among the non-zero genes, covariate, target).  The result is \<open>None\<close> when the
  fit did not converge or a coefficient is not above \<open>1e-10\<close>, where the code switches to
  the mean trend.  The ratios to the predictions index the gene-wise dispersions by the
  position among the non-zero genes.
\<close>

definition trend_continue :: "vec \<Rightarrow> vec \<Rightarrow> bool" where
  "trend_continue old_coeffs coeffs =
     (list_all (\<lambda>c. fless (Fin 0.0000000001) c) coeffs \<and>
      fle (Fin 0.000001) (fsum (map2 (\<lambda>c c0. fsq (flog (fabs (fdiv c c0)))) coeffs old_coeffs)))"

definition trend_fit :: "inference \<Rightarrow> (nat \<times> fl \<times> fl) list \<Rightarrow> vec \<times> vec \<times> bool" where
  "trend_fit I genes =
     dispersion_trend_gamma_glm I (map (\<lambda>(p, c, t). (p, c)) genes) (map (\<lambda>(p, c, t). (p, t)) genes)"

definition trend_keep :: "vec \<Rightarrow> vec \<Rightarrow> (nat \<times> fl \<times> fl) list \<Rightarrow> (nat \<times> fl \<times> fl) list" where
  "trend_keep genewise predictions genes =
     (let pred_ratios = map2 fdiv (take_idx genewise (map fst genes)) predictions
      in map snd (filter (\<lambda>(i, g). \<not> (i < length pred_ratios \<and>
                                        (fless (pred_ratios ! i) (Fin 0.0001) \<or>
                                         fle (Fin 15) (pred_ratios ! i))))
                    (zip [0..<length genes] genes)))"

function trend_loop ::
  "inference \<Rightarrow> vec \<Rightarrow> vec \<Rightarrow> vec \<Rightarrow> (nat \<times> fl \<times> fl) list \<Rightarrow> vec option" where
  "trend_loop I genewise old_coeffs coeffs genes =
     (if trend_continue old_coeffs coeffs then
        (if \<not> snd (snd (trend_fit I genes)) \<or>
            list_ex (\<lambda>c. fle c (Fin 0.0000000001)) (fst (trend_fit I genes))
         then None
         else trend_loop I genewise coeffs (fst (trend_fit I genes))
                (trend_keep genewise (fst (snd (trend_fit I genes))) genes))
      else Some coeffs)"
  by pat_completeness auto
termination
proof (relation "measure (\<lambda>(I, g, old, coeffs, genes).
          if trend_continue old coeffs
          then 1 + 2 * length genes + (if coeffs = fst (trend_fit I genes) then 0 else 1)
          else 0)", goal_cases)
  case 1
  show ?case by simp
next
  case (2 I genewise old coeffs genes)
  let ?c = "fst (trend_fit I genes)"
  let ?k = "trend_keep genewise (fst (snd (trend_fit I genes))) genes"
  have tm: "fsq (flog (fabs (fdiv c c))) = Fin 0 \<or> fsq (flog (fabs (fdiv c c))) = NaN" for c
    by (cases c) (auto simp: fsq_def inf_of_sign_def)
  have acc: "foldl fadd a xs = Fin 0 \<or> foldl fadd a xs = NaN"
    if "a = Fin 0 \<or> a = NaN" "\<forall>x \<in> set xs. x = Fin 0 \<or> x = NaN" for a xs
    using that
  proof (induction xs arbitrary: a)
    case Nil
    then show ?case by simp
  next
    case (Cons x xs)
    then have "fadd a x = Fin 0 \<or> fadd a x = NaN" by auto
    from Cons.IH[OF this] Cons.prems show ?case by simp
  qed
  have stop: "\<not> trend_continue c c" for c
  proof -
    have "\<forall>x \<in> set (map2 (\<lambda>c c0. fsq (flog (fabs (fdiv c c0)))) c c). x = Fin 0 \<or> x = NaN"
      using tm by (auto simp: set_zip)
    from acc[OF _ this, of "Fin 0"]
    show ?thesis by (auto simp: trend_continue_def fsum_def)
  qed
  have le: "length ?k \<le> length genes"
    unfolding trend_keep_def Let_def
    by (simp add: le_trans[OF length_filter_le])
  have same: "?k = genes" if "length ?k = length genes"
  proof -
    let ?P = "\<lambda>(i, g). \<not> (i < length (map2 fdiv (take_idx genewise (map fst genes)) (fst (snd (trend_fit I genes)))) \<and>
                  (fless (map2 fdiv (take_idx genewise (map fst genes)) (fst (snd (trend_fit I genes))) ! i) (Fin 0.0001) \<or>
                   fle (Fin 15) (map2 fdiv (take_idx genewise (map fst genes)) (fst (snd (trend_fit I genes))) ! i)))"
    let ?z = "zip [0..<length genes] genes"
    have k: "?k = map snd (filter ?P ?z)"
      unfolding trend_keep_def Let_def by simp
    with that have "length (filter ?P ?z) = length ?z" by simp
    then have "filter ?P ?z = ?z"
      by (metis (no_types, lifting) filter_True length_filter_less linorder_neq_iff)
    with k show ?thesis by simp
  qed
  show ?case
  proof (cases "length ?k = length genes")
    case True
    with same have k: "?k = genes" by simp
    show ?thesis using 2 stop[of coeffs] by (auto simp: k)
  next
    case False
    with le have "length ?k < length genes" by simp
    then show ?thesis using 2 by auto
  qed
qed

declare trend_loop.simps [simp del]

text \<open>\<open>_fit_parametric_dispersion_trend\<close> at \<open>vst = False\<close>.\<close>

definition parametric_core :: "'m pylib \<Rightarrow> inference \<Rightarrow> 'm dds \<Rightarrow> error + 'm dds" where
  "parametric_core L I s =
     thenE (item (varm_genewise_dispersions s)) (\<lambda>genewise.
     thenE (attr (self_non_zero_idx s)) (\<lambda>non_zero_idx.
     thenE (item (varm_normed_means s)) (\<lambda>normed_means.
       let genes0 = zip [0..<length non_zero_idx]
                      (zip (map (\<lambda>x. fdiv (Fin 1) x) (take_idx normed_means non_zero_idx))
                         (take_idx genewise non_zero_idx));
           genes = filter (\<lambda>(p, c, t). \<not> (isinf c \<or> isnan c)) genes0
       in (case trend_loop I genewise [Fin 0.1, Fin 0.1] [Fin 1, Fin 1] genes of
             None \<Rightarrow> fit_mean_dispersion_trend L s
           | Some coeffs \<Rightarrow>
               thenE (item (varm_non_zero s)) (\<lambda>non_zero.
                 let s' = s\<lparr>uns_trend_coeffs := Some coeffs,
                            varm_fitted_dispersions := Some (full (self_n_vars s) NaN),
                            uns_disp_function_type := Some Parametric\<rparr>
                 in thenE (disp_function L s' (sel_mask non_zero normed_means)) (\<lambda>fitted.
                      Inr (s'\<lparr>varm_fitted_dispersions :=
                                 Some (put_mask non_zero (full (self_n_vars s) NaN) fitted)\<rparr>)))))))"

definition fit_parametric_dispersion_trend ::
  "'m pylib \<Rightarrow> inference \<Rightarrow> 'm dds \<Rightarrow> error + 'm dds" where
  "fit_parametric_dispersion_trend L I s0 =
     thenE (if varm_genewise_dispersions s0 = None then fit_genewise_dispersions L I s0 else Inr s0)
       (parametric_core L I)"

text \<open>\<open>fit_dispersion_trend\<close> at \<open>vst = False\<close>.\<close>

definition trend_core :: "'m pylib \<Rightarrow> inference \<Rightarrow> 'm dds \<Rightarrow> error + 'm dds" where
  "trend_core L I s =
     (case self_fit_type s of
        Parametric \<Rightarrow> fit_parametric_dispersion_trend L I s
      | Mean \<Rightarrow> fit_mean_dispersion_trend L s
      | Other_trend \<Rightarrow> Inl NotImplementedError)"

definition fit_dispersion_trend :: "'m pylib \<Rightarrow> inference \<Rightarrow> 'm dds \<Rightarrow> error + 'm dds" where
  "fit_dispersion_trend L I s0 =
     thenE (if varm_genewise_dispersions s0 = None then fit_genewise_dispersions L I s0 else Inr s0)
       (trend_core L I)"

subsection \<open>Prior and MAP dispersions\<close>

text \<open>
  \<open>fit_dispersion_prior\<close>.  Its \<open>gene_index\<close> maps each non-zero gene to its position
  among the non-zero genes, so it is \<open>0, ..., k - 1\<close> for \<open>k\<close> non-zero genes.
\<close>

definition prior_core :: "'m pylib \<Rightarrow> 'm dds \<Rightarrow> error + 'm dds" where
  "prior_core L s =
     thenE (attr (self_non_zero_idx s)) (\<lambda>non_zero_idx.
     thenE (item (varm_genewise_dispersions s)) (\<lambda>genewise.
     thenE (item (varm_fitted_dispersions s)) (\<lambda>fitted.
       let num_samples = self_n_obs s;
           num_vars = shape1 (obsm_design_matrix s);
           gene_index = [0..<length non_zero_idx];
           disp_residuals = map2 fsub (map flog (take_idx genewise gene_index))
                              (map flog (take_idx fitted gene_index));
           above_min_disp = map (\<lambda>x. fle (fmul (Fin 100) (self_min_disp s)) x)
                              (take_idx genewise gene_index);
           squared_logres = fsq (mean_absolute_deviation L (sel_mask above_min_disp disp_residuals))
       in Inr (s\<lparr>uns_squared_logres := Some squared_logres,
                 uns_prior_disp_var :=
                   Some (fmaximum
                           (fsub squared_logres
                              (polygamma1 L (fdiv (Fin (real_of_int (int num_samples - int num_vars)))
                                               (Fin 2))))
                           (Fin 0.25))\<rparr>))))"

definition fit_dispersion_prior :: "'m pylib \<Rightarrow> inference \<Rightarrow> 'm dds \<Rightarrow> error + 'm dds" where
  "fit_dispersion_prior L I s0 =
     thenE (if varm_fitted_dispersions s0 = None then fit_dispersion_trend L I s0 else Inr s0)
       (prior_core L)"

text \<open>The test that marks a gene as an outlier of the trend.\<close>

definition is_outlier :: "fl \<Rightarrow> fl \<Rightarrow> fl \<Rightarrow> bool" where
  "is_outlier squared_logres genewise fitted =
     fless (fadd (flog fitted) (fmul (Fin 2) (fsqrt squared_logres))) (flog genewise)"

text \<open>The body of \<open>fit_MAP_dispersions\<close>, once the prior variance is there.\<close>

definition MAP_core :: "inference \<Rightarrow> 'm dds \<Rightarrow> error + 'm dds" where
  "MAP_core I s =
      (if counts_is_ndarray s then Inl AttributeError
       else
     thenE (attr (self_non_zero_idx s)) (\<lambda>non_zero_idx.
     thenE (item (layers_mu_hat s)) (\<lambda>mu_hat.
     thenE (item (varm_fitted_dispersions s)) (\<lambda>fitted.
     thenE (item (uns_prior_disp_var s)) (\<lambda>prior_disp_var.
       let (dispersions', converged') =
             alpha_mle I (cols (data_counts s) non_zero_idx) (obsm_design_matrix s)
               (cols mu_hat non_zero_idx) (take_idx fitted non_zero_idx)
               (self_min_disp s) (self_max_disp s) (Some (prior_disp_var, True, True))
       in
     thenE (item (varm_non_zero s)) (\<lambda>non_zero.
       let MAP = put_mask non_zero (full (self_n_vars s) NaN)
                   (map (\<lambda>x. clip x (self_min_disp s) (self_max_disp s)) dispersions');
           MAP_converged = put_mask non_zero (full (self_n_vars s) NaN) (map flag converged')
       in
     thenE (item (varm_genewise_dispersions s)) (\<lambda>genewise.
     thenE (item (uns_squared_logres s)) (\<lambda>squared_logres.
       let outlier_genes = map2 (is_outlier squared_logres) genewise fitted
       in Inr (s\<lparr>varm_MAP_dispersions := Some MAP,
                 varm_MAP_converged := Some MAP_converged,
                 varm_dispersions := Some (put_mask outlier_genes MAP (sel_mask outlier_genes genewise)),
                 varm_outlier_genes := Some outlier_genes\<rparr>)))))))))"

definition fit_MAP_dispersions :: "'m pylib \<Rightarrow> inference \<Rightarrow> 'm dds \<Rightarrow> error + 'm dds" where
  "fit_MAP_dispersions L I s0 =
     thenE (if uns_prior_disp_var s0 = None then fit_dispersion_prior L I s0 else Inr s0)
       (MAP_core I)"

subsection \<open>Log-fold changes\<close>

text \<open>The copy numbers as \<open>fit_LFC\<close> rescales them: \<open>cnv / 2 + 0.1\<close>.\<close>

definition rescale_cnv :: "mat \<Rightarrow> mat" where
  "rescale_cnv m = map (map (\<lambda>c. fadd (fdiv c (Fin 2)) (Fin 0.1))) m"

text \<open>The body of \<open>fit_LFC\<close>, once the dispersions are there.\<close>

definition LFC_core :: "inference \<Rightarrow> 'm dds \<Rightarrow> error + 'm dds" where
  "LFC_core I s =
      (if counts_is_ndarray s then Inl AttributeError
       else
         let design_matrix = obsm_design_matrix s;
             counts = data_counts s;
             cnv = rescale_cnv (data_cnv s)
         in
     thenE (attr (self_non_zero_idx s)) (\<lambda>non_zero_idx.
     thenE (item (obsm_size_factors s)) (\<lambda>size_factors.
     thenE (item (varm_dispersions s)) (\<lambda>dispersions.
       let (mle_lfcs', mu', hat_diagonals', converged') =
             inf_irls_glm I (cols counts non_zero_idx) (cols cnv non_zero_idx) size_factors
               design_matrix (take_idx dispersions non_zero_idx) (self_min_mu s) (self_beta_tol s)
       in
     thenE (item (varm_non_zero s)) (\<lambda>non_zero.
       Inr (s\<lparr>varm_LFC := Some (put_mask non_zero
                                  (full2 (self_n_vars s) (shape1 design_matrix) NaN) mle_lfcs'),
              obsm_mu_LFC := Some mu',
              obsm_hat_diagonals := Some hat_diagonals',
              varm_LFC_converged :=
                Some (put_mask non_zero (full (self_n_vars s) NaN) (map flag converged'))\<rparr>))))))"

definition fit_LFC :: "'m pylib \<Rightarrow> inference \<Rightarrow> 'm dds \<Rightarrow> error + 'm dds" where
  "fit_LFC L I s0 =
     thenE (if varm_dispersions s0 = None then fit_MAP_dispersions L I s0 else Inr s0)
       (LFC_core I)"

subsection \<open>Cook's distances and the refit\<close>

text \<open>One Cook's distance, from a count, its fitted mean, the dispersion and the leverage.\<close>

definition cook :: "nat \<Rightarrow> int \<Rightarrow> fl \<Rightarrow> fl \<Rightarrow> fl \<Rightarrow> fl" where
  "cook num_vars c m d h =
     fmul (fdiv (fdiv (fsq (fsub (of_count c) m)) (fadd (fmul (fsq m) d) m)) (Fin (real num_vars)))
       (fdiv h (fsq (fsub (Fin 1) h)))"

definition cooks_core :: "'m pylib \<Rightarrow> 'm dds \<Rightarrow> error + 'm dds" where
  "cooks_core L s =
      (let num_vars = shape1 (obsm_design_matrix s)
       in
     thenE (item (varm_non_zero s)) (\<lambda>non_zero.
     thenE (item (layers_normed_counts s)) (\<lambda>normed_counts.
       if normed_counts_is_ndarray s then Inl AttributeError
       else
         let dispersions = robust_method_of_moments_disp L (sel_cols non_zero normed_counts)
                             (obsm_design_matrix s)
         in if counts_is_ndarray s then Inl AttributeError
            else
     thenE (item (obsm_mu_LFC s)) (\<lambda>mu_LFC.
     thenE (item (obsm_hat_diagonals s)) (\<lambda>hat.
       let cooks = map (\<lambda>(crow, mrow, hrow).
                          map (\<lambda>(c, m, d, h). cook num_vars c m d h)
                            (zip crow (zip mrow (zip dispersions hrow))))
                     (zip (sel_cols non_zero (data_counts s)) (zip mu_LFC hat))
       in Inr (s\<lparr>normed_counts_is_ndarray := True,
                 counts_is_ndarray := True,
                 layers_cooks :=
                   Some (put_cols non_zero (full2 (self_n_obs s) (self_n_vars s) NaN) cooks)\<rparr>))))))"

definition calculate_cooks :: "'m pylib \<Rightarrow> inference \<Rightarrow> 'm dds \<Rightarrow> error + 'm dds" where
  "calculate_cooks L I s0 =
     thenE (if varm_dispersions s0 = None then fit_MAP_dispersions L I s0 else Inr s0)
       (cooks_core L)"

text \<open>
  The pieces of \<open>_replace_outliers\<close>: the cutoff, the genes with an entry above it, the
  replacement counts \<open>(trimmed mean * size factor).astype(int)\<close> of the replaced genes,
  and the rows of the copy that are overwritten.
\<close>

definition cooks_cutoff :: "'m pylib \<Rightarrow> 'm dds \<Rightarrow> fl" where
  "cooks_cutoff L s =
     f_ppf L (Fin 0.99) (shape1 (obsm_design_matrix s))
       (int (self_n_obs s) - int (shape1 (obsm_design_matrix s)))"

definition replaced_genes :: "'m dds \<Rightarrow> bool list list \<Rightarrow> bool list" where
  "replaced_genes s idx = map (\<lambda>j. list_ex (\<lambda>r. r ! j) idx) [0..<self_n_vars s]"

definition replacement_counts :: "'m pylib \<Rightarrow> int list list \<Rightarrow> vec \<Rightarrow> int list list" where
  "replacement_counts L counts_to_refit sfs =
     (let trim_base_mean =
            trimmed_mean L (map2 (\<lambda>r sf. map (\<lambda>c. fdiv (of_count c) sf) r) counts_to_refit sfs)
              (Fin 0.2)
      in map (\<lambda>sf. map (\<lambda>t. astype_int (fmul t sf)) trim_base_mean) sfs)"

definition replaced_rows :: "bool list \<Rightarrow> bool list \<Rightarrow> bool list list \<Rightarrow> bool list" where
  "replaced_rows replaceable replaced idx =
     map (list_ex id) (map2 (\<lambda>rp r. map (\<lambda>b. rp \<and> b) (sel_mask replaced r)) replaceable idx)"

text \<open>
  \<open>_replace_outliers\<close>.  The replaced genes are copied into \<open>counts_to_refit\<close>; every row
  of the copy that holds a replaceable entry above the cutoff is overwritten by the
  replacement counts.
\<close>

definition replace_core :: "'m pylib \<Rightarrow> 'm dds \<Rightarrow> error + 'm dds" where
  "replace_core L s =
      (let replaceable = n_or_more_replicates L (obsm_design_matrix s) (self_min_replicates s);
           s1 = s\<lparr>obsm_replaceable := Some replaceable\<rparr>
       in if \<not> list_ex id replaceable
          then Inr (s1\<lparr>varm_replaced := Some (full (self_n_vars s) False)\<rparr>)
          else
     thenE (item (layers_cooks s1)) (\<lambda>cooks.
       let idx = map (map (\<lambda>c. fless (cooks_cutoff L s) c)) cooks;
           replaced = replaced_genes s idx;
           s2 = s1\<lparr>varm_replaced := Some replaced\<rparr>
       in if list_ex id replaced then
            (if \<not> counts_is_ndarray s2 then Inl TypeError
             else
     thenE (item (obsm_size_factors s2)) (\<lambda>size_factors.
       let counts_to_refit = sel_cols replaced (data_counts s2)
       in Inr (s2\<lparr>self_counts_to_refit :=
                    Some (map (\<lambda>(rw, old, new). if rw then new else old)
                            (zip (replaced_rows replaceable replaced idx)
                               (zip counts_to_refit
                                  (replacement_counts L counts_to_refit size_factors))))\<rparr>)))
          else Inr s2))"

definition replace_outliers :: "'m pylib \<Rightarrow> inference \<Rightarrow> 'm dds \<Rightarrow> error + 'm dds" where
  "replace_outliers L I s0 =
     thenE (if layers_cooks s0 = None then calculate_cooks L I s0 else Inr s0) (replace_core L)"

text \<open>
  \<open>_refit_without_outliers\<close>.  The sub-problem is a fresh object on the replaced counts
  and on the whole copy-number table of the parent; \<open>fit_type\<close> is left at its default.
\<close>

definition sub_args :: "'m dds \<Rightarrow> int list list \<Rightarrow> 'm init_args" where
  "sub_args s counts_to_refit =
     \<lparr>a_counts = counts_to_refit,
      a_cnv = data_cnv s,
      a_metadata = self_metadata s,
      a_design_factors = self_design_factors s,
      a_continuous_factors = self_continuous_factors s,
      a_ref_level = self_ref_level s,
      a_fit_type = Parametric,
      a_min_mu = self_min_mu s,
      a_min_disp = self_min_disp s,
      a_max_disp = self_max_disp s,
      a_refit_cooks = self_refit_cooks s,
      a_min_replicates = self_min_replicates s,
      a_beta_tol = self_beta_tol s\<rparr>"

text \<open>The sub-problem takes the size factors of the parent.\<close>

definition sub_start :: "'m dds \<Rightarrow> vec \<Rightarrow> 'm dds" where
  "sub_start sub0 sfs =
     sub0\<lparr>obsm_size_factors := Some sfs,
           layers_normed_counts :=
             Some (map2 (\<lambda>r sf. map (\<lambda>c. fdiv (of_count c) sf) r) (data_counts sub0) sfs)\<rparr>"

text \<open>
  It takes the trend and the prior of the parent as well, and evaluates the trend at its
  own normalised means.
\<close>

definition sub_trend :: "'m pylib \<Rightarrow> 'm dds \<Rightarrow> 'm dds \<Rightarrow> error + 'm dds" where
  "sub_trend L s sub1 =
     thenE (item (uns_disp_function_type s)) (\<lambda>t.
     thenE (case t of
              Parametric \<Rightarrow>
                thenE (item (uns_trend_coeffs s)) (\<lambda>c.
                  Inr (sub1\<lparr>uns_disp_function_type := Some t, uns_trend_coeffs := Some c\<rparr>))
            | Mean \<Rightarrow>
                thenE (item (uns_mean_disp s)) (\<lambda>m.
                  Inr (sub1\<lparr>uns_disp_function_type := Some t, uns_mean_disp := Some m\<rparr>))
            | Other_trend \<Rightarrow> Inr (sub1\<lparr>uns_disp_function_type := Some t\<rparr>)) (\<lambda>sub2.
     thenE (item (layers_normed_counts sub2)) (\<lambda>normed_counts.
       let normed_means = frame_mean0 L normed_counts
       in
     thenE (disp_function L (sub2\<lparr>varm_normed_means := Some normed_means\<rparr>) normed_means) (\<lambda>fitted.
     thenE (item (uns_squared_logres s)) (\<lambda>squared_logres.
     thenE (item (uns_prior_disp_var s)) (\<lambda>prior_disp_var.
       Inr (sub2\<lparr>varm_normed_means := Some normed_means,
                  varm_fitted_dispersions := Some fitted,
                  uns_squared_logres := Some squared_logres,
                  uns_prior_disp_var := Some prior_disp_var\<rparr>)))))))"

text \<open>The fit of the sub-problem, up to its log-fold changes.\<close>

definition fit_sub :: "'m pylib \<Rightarrow> inference \<Rightarrow> 'm dds \<Rightarrow> int list list \<Rightarrow> error + 'm dds" where
  "fit_sub L I s counts_to_refit =
     thenE (init L (sub_args s counts_to_refit)) (\<lambda>sub0.
     thenE (item (obsm_size_factors s)) (\<lambda>sfs.
     thenE (fit_genewise_dispersions L I (sub_start sub0 sfs)) (\<lambda>sub1.
     thenE (sub_trend L s sub1) (\<lambda>sub2.
     thenE (fit_MAP_dispersions L I sub2) (fit_LFC L I)))))"

text \<open>Writing the results of the sub-problem back at the refitted genes.\<close>

definition merge_sub :: "'m dds \<Rightarrow> 'm dds \<Rightarrow> bool list \<Rightarrow> error + 'm dds" where
  "merge_sub s sub refitted =
     thenE (item (varm_normed_means s)) (\<lambda>normed_means.
     thenE (item (varm_normed_means sub)) (\<lambda>sub_normed_means.
     thenE (item (varm_LFC s)) (\<lambda>lfc.
     thenE (item (varm_LFC sub)) (\<lambda>sub_lfc.
     thenE (item (varm_genewise_dispersions s)) (\<lambda>genewise.
     thenE (item (varm_genewise_dispersions sub)) (\<lambda>sub_genewise.
     thenE (item (varm_fitted_dispersions s)) (\<lambda>fitted.
     thenE (item (varm_fitted_dispersions sub)) (\<lambda>sub_fitted.
     thenE (item (varm_dispersions s)) (\<lambda>dispersions.
     thenE (item (varm_dispersions sub)) (\<lambda>sub_dispersions.
     thenE (item (layers_cooks s)) (\<lambda>cooks.
     thenE (item (obsm_replaceable s)) (\<lambda>replaceable.
       Inr (s\<lparr>varm_normed_means := Some (put_mask refitted normed_means sub_normed_means),
              varm_LFC := Some (put_mask refitted lfc sub_lfc),
              varm_genewise_dispersions := Some (put_mask refitted genewise sub_genewise),
              varm_fitted_dispersions := Some (put_mask refitted fitted sub_fitted),
              varm_dispersions := Some (put_mask refitted dispersions sub_dispersions),
              layers_replace_cooks :=
                Some (map2 (\<lambda>rp r. if rp then fill_mask refitted r (Fin 0) else r)
                        replaceable cooks)\<rparr>)))))))))))))"

text \<open>
  The replaced genes that replacement has left without any count: their normalised mean
  and their log-fold changes are set to 0.
\<close>

definition new_all_zeroes :: "bool list \<Rightarrow> int list list \<Rightarrow> bool list" where
  "new_all_zeroes replaced counts_to_refit =
     map (\<lambda>j. list_all (\<lambda>r. r ! j = 0) counts_to_refit) [0..<length (filter id replaced)]"

definition zero_new_all_zeroes :: "'m dds \<Rightarrow> bool list \<Rightarrow> bool list \<Rightarrow> error + 'm dds" where
  "zero_new_all_zeroes s replaced naz =
     (if list_ex id naz then
        thenE (item (varm_normed_means s)) (\<lambda>normed_means.
        thenE (item (varm_LFC s)) (\<lambda>lfc.
          let zeroed = put_mask replaced (full (length replaced) False) naz
          in Inr (s\<lparr>varm_normed_means := Some (fill_mask zeroed normed_means (Fin 0)),
                    varm_LFC := Some (map2 (\<lambda>z r. if z then map (\<lambda>x. Fin 0) r else r)
                                        zeroed lfc)\<rparr>)))
      else Inr s)"

definition refit_core :: "'m pylib \<Rightarrow> inference \<Rightarrow> 'm dds \<Rightarrow> error + 'm dds" where
  "refit_core L I s1 =
     thenE (attr (self_counts_to_refit s1)) (\<lambda>counts_to_refit.
     thenE (item (varm_replaced s1)) (\<lambda>replaced.
       let naz = new_all_zeroes replaced counts_to_refit;
           refitted = put_mask replaced replaced (map Not naz)
       in
     thenE (zero_new_all_zeroes (s1\<lparr>varm_refitted := Some refitted\<rparr>) replaced naz) (\<lambda>s3.
       if \<not> list_ex id refitted then Inr s3
       else
         let counts_to_refit' = sel_cols (map Not naz) counts_to_refit;
             s4 = s3\<lparr>self_counts_to_refit := Some counts_to_refit'\<rparr>
         in thenE (fit_sub L I s4 counts_to_refit') (\<lambda>sub. merge_sub s4 sub refitted))))"

definition refit_without_outliers :: "'m pylib \<Rightarrow> inference \<Rightarrow> 'm dds \<Rightarrow> error + 'm dds" where
  "refit_without_outliers L I s0 =
     (if \<not> self_refit_cooks s0 then Inl AssertionError
      else thenE (if varm_replaced s0 = None then replace_outliers L I s0 else Inr s0)
             (refit_core L I))"

definition refit :: "'m pylib \<Rightarrow> inference \<Rightarrow> 'm dds \<Rightarrow> error + 'm dds" where
  "refit L I s0 =
     thenE (replace_outliers L I s0) (\<lambda>s.
     thenE (item (varm_replaced s)) (\<lambda>replaced.
       if list_ex id replaced then refit_without_outliers L I s
       else Inr (s\<lparr>varm_refitted := Some (full (self_n_vars s) False)\<rparr>)))"

subsection \<open>The pipeline\<close>

text \<open>\<open>deseq2\<close> without a \<open>fit_type\<close> argument.\<close>

definition deseq2 :: "'m pylib \<Rightarrow> inference \<Rightarrow> 'm dds \<Rightarrow> error + 'm dds" where
  "deseq2 L I s0 =
     thenE (fit_size_factors L s0) (\<lambda>s1.
     thenE (fit_genewise_dispersions L I s1) (\<lambda>s2.
     thenE (fit_dispersion_trend L I s2) (\<lambda>s3.
     thenE (fit_dispersion_prior L I s3) (\<lambda>s4.
     thenE (fit_MAP_dispersions L I s4) (\<lambda>s5.
     thenE (fit_LFC L I s5) (\<lambda>s6.
     thenE (calculate_cooks L I s6) (\<lambda>s7.
       if self_refit_cooks s7 then refit L I s7 else Inr s7)))))))"

section \<open>A concrete library, inference object and data set\<close>

text \<open>
  Stand-ins for the external routines, simple enough to evaluate by hand.  The metadata
  table is the design matrix itself.  The log means and the filter of
  \<open>deseq2_norm_fit\<close> are as pydeseq2 computes them; the size factors are all 1, which
  is what the median of ratios gives on the data sets below.  The trimmed means trim
  nothing, as the real ones do on fewer than five values.  The replicate count of a
  sample is the number of samples with its design row.  The quantile function knows the
  \<open>0.99\<close> quantiles of \<open>F(1, 2)\<close> and \<open>F(2, 1)\<close>, the two that the data sets below ask
  for.
\<close>

definition col_means :: "mat \<Rightarrow> vec" where
  "col_means m = map (\<lambda>j. fdiv (fsum (col m j)) (Fin (real (length m)))) [0..<shape1 m]"

definition lib0 :: "mat pylib" where
  "lib0 =
     \<lparr>test_valid_counts = list_all (list_all (\<lambda>c. 0 \<le> c)),
      build_design_matrix = (\<lambda>m df cf rl. Inr m),
      deseq2_norm_fit = (\<lambda>c. (col_means (map (map (\<lambda>x. flog (of_count x))) c),
                               map (\<lambda>x. \<not> isinf x) (col_means (map (map (\<lambda>x. flog (of_count x))) c)))),
      deseq2_norm_transform = (\<lambda>c lm ctl. (map (map of_count) c, replicate (length c) (Fin 1))),
      frame_mean0 = col_means,
      dispersion_trend = (\<lambda>x coeffs. map (\<lambda>m. fadd (coeffs ! 0) (fdiv (coeffs ! 1) m)) x),
      mean_absolute_deviation = (\<lambda>v. Fin 0),
      polygamma1 = (\<lambda>x. Fin 0),
      trim_mean = (\<lambda>v p. fdiv (fsum v) (Fin (real (length v)))),
      trimmed_mean = (\<lambda>m trim. col_means m),
      robust_method_of_moments_disp = (\<lambda>nc dm. replicate (shape1 nc) (Fin 1)),
      f_ppf = (\<lambda>q d1 d2. if d1 = 1 then Fin 98.5 else Fin 4999.5),
      n_or_more_replicates = (\<lambda>dm k. map (\<lambda>r. k \<le> int (length (filter (\<lambda>r'. r' = r) dm))) dm)\<rparr>"

text \<open>
  An inference object whose \<open>irls_glm\<close> hands back, as fitted mean, the copy-number
  offset it was given, so that the offset can be read off the results, and whose
  \<open>alpha_mle\<close>, without a prior, lands on the upper bound for the first gene it is
  given and stays at the initial value for the others, and with a prior stays at the
  initial values, which are those of the trend.
\<close>

definition spy_inference :: inference where
  "spy_inference =
     \<lparr>lin_reg_mu = (\<lambda>c sf dm mm. map (map (\<lambda>x. fmaximum (of_count x) mm)) c),
      inf_irls_glm = (\<lambda>c cnv sf dm d mm tol.
         (replicate (shape1 c) (replicate (shape1 dm) (Fin 0)), cnv,
          map (map (\<lambda>x. Fin 0.5)) c, replicate (shape1 c) True)),
      alpha_mle = (\<lambda>c dm mu alpha lo hi reg.
         (case reg of
            None \<Rightarrow> map (\<lambda>j. if j = 0 then hi else alpha ! j) [0..<shape1 c]
          | Some r \<Rightarrow> take (shape1 c) alpha,
          replicate (shape1 c) True)),
      fit_rough_dispersions = (\<lambda>nc dm. replicate (shape1 nc) (Fin 1)),
      fit_moments_dispersions2 = (\<lambda>nc sf. replicate (shape1 nc) (Fin 1)),
      dispersion_trend_gamma_glm = (\<lambda>cov tg. ([Fin 1, Fin 1], map (\<lambda>x. Fin 1) cov, True))\<rparr>"

text \<open>
  Three samples and two genes, the second gene without any count; a design with an
  intercept and one continuous covariate; a mean trend; \<open>max_disp = 1\<close>.
\<close>

definition args0 :: "mat init_args" where
  "args0 =
     \<lparr>a_counts = [[4, 0], [4, 0], [4, 0]],
      a_cnv = [[Fin 2, Fin 2], [Fin 4, Fin 2], [Fin 2, Fin 2]],
      a_metadata = [[Fin 1, Fin 0], [Fin 1, Fin 1], [Fin 1, Fin 2]],
      a_design_factors = [''condition''],
      a_continuous_factors = None,
      a_ref_level = None,
      a_fit_type = Mean,
      a_min_mu = Fin 0.5,
      a_min_disp = Fin 0.01,
      a_max_disp = Fin 1,
      a_refit_cooks = True,
      a_min_replicates = 7,
      a_beta_tol = Fin 0.00000001\<rparr>"

text \<open>
  Three samples of one condition and two genes, every sample with a count far from the
  others in one of the genes; \<open>min_replicates = 3\<close>.
\<close>

definition args_outl :: "mat init_args" where
  "args_outl =
     \<lparr>a_counts = [[200, 1], [1, 200], [20, 10]],
      a_cnv = [[Fin 2, Fin 2], [Fin 2, Fin 2], [Fin 2, Fin 2]],
      a_metadata = [[Fin 1], [Fin 1], [Fin 1]],
      a_design_factors = [''condition''],
      a_continuous_factors = None,
      a_ref_level = None,
      a_fit_type = Mean,
      a_min_mu = Fin 0.5,
      a_min_disp = Fin 0.00000001,
      a_max_disp = Fin 10,
      a_refit_cooks = True,
      a_min_replicates = 3,
      a_beta_tol = Fin 0.00000001\<rparr>"


section \<open>Predicates on states\<close>

text \<open>What the constructor stores and no stage is meant to change.\<close>

definition same_inputs :: "'m dds \<Rightarrow> 'm dds \<Rightarrow> bool" where
  "same_inputs s s' \<longleftrightarrow>
     data_counts s' = data_counts s \<and> data_cnv s' = data_cnv s \<and>
     obsm_design_matrix s' = obsm_design_matrix s \<and>
     self_min_disp s' = self_min_disp s \<and> self_max_disp s' = self_max_disp s \<and>
     self_n_obs s' = self_n_obs s \<and> self_n_vars s' = self_n_vars s \<and>
     self_min_mu s' = self_min_mu s \<and> self_beta_tol s' = self_beta_tol s \<and>
     self_refit_cooks s' = self_refit_cooks s \<and>
     self_min_replicates s' = self_min_replicates s \<and>
     self_fit_type s' = self_fit_type s \<and> self_metadata s' = self_metadata s \<and>
     self_design_factors s' = self_design_factors s \<and>
     self_continuous_factors s' = self_continuous_factors s \<and>
     self_ref_level s' = self_ref_level s"


text \<open>The two arrays that the MAP stage compares gene by gene have one slot per gene.\<close>

definition arrays_ok :: "'m dds \<Rightarrow> bool" where
  "arrays_ok s \<longleftrightarrow>
     (\<forall>g. varm_genewise_dispersions s = Some g \<longrightarrow> length g = self_n_vars s) \<and>
     (\<forall>f. varm_fitted_dispersions s = Some f \<longrightarrow> length f = self_n_vars s)"


text \<open>A dispersion is NaN or lies between the bounds.\<close>

definition in_range :: "fl \<Rightarrow> fl \<Rightarrow> fl \<Rightarrow> bool" where
  "in_range lo hi x \<longleftrightarrow> isnan x \<or> (fle lo x \<and> fle x hi)"

definition all_in_range :: "fl \<Rightarrow> fl \<Rightarrow> vec option \<Rightarrow> bool" where
  "all_in_range lo hi v = (case v of None \<Rightarrow> True | Some xs \<Rightarrow> list_all (in_range lo hi) xs)"

definition disp_ok :: "'m dds \<Rightarrow> bool" where
  "disp_ok s \<longleftrightarrow>
     all_in_range (self_min_disp s) (self_max_disp s) (varm_MoM_dispersions s) \<and>
     all_in_range (self_min_disp s) (self_max_disp s) (varm_genewise_dispersions s) \<and>
     all_in_range (self_min_disp s) (self_max_disp s) (varm_MAP_dispersions s) \<and>
     all_in_range (self_min_disp s) (self_max_disp s) (varm_dispersions s)"

text \<open>Gene \<open>j\<close> has no count in any sample.\<close>

definition zero_gene :: "int list list \<Rightarrow> nat \<Rightarrow> bool" where
  "zero_gene cs j = list_all (\<lambda>r. r ! j = 0) cs"

text \<open>The slot of gene \<open>j\<close> holds NaN: in a vector, in every row of a
  samples-by-genes matrix, in the whole row of a genes-by-coefficients matrix.\<close>

definition nan_slot :: "vec option \<Rightarrow> nat \<Rightarrow> bool" where
  "nan_slot v j = (case v of None \<Rightarrow> True | Some xs \<Rightarrow> j < length xs \<and> xs ! j = NaN)"

definition nan_column :: "mat option \<Rightarrow> nat \<Rightarrow> bool" where
  "nan_column m j = (case m of None \<Rightarrow> True | Some rs \<Rightarrow> list_all (\<lambda>r. j < length r \<and> r ! j = NaN) rs)"

definition nan_row :: "mat option \<Rightarrow> nat \<Rightarrow> bool" where
  "nan_row m j = (case m of None \<Rightarrow> True | Some rs \<Rightarrow> j < length rs \<and> list_all isnan (rs ! j))"

definition zero_ok :: "'m dds \<Rightarrow> bool" where
  "zero_ok s \<longleftrightarrow>
     (\<forall>nz. varm_non_zero s = Some nz \<longrightarrow>
        nz = map (\<lambda>j. \<not> zero_gene (data_counts s) j) [0..<self_n_vars s]) \<and>
     (\<forall>r. varm_replaced s = Some r \<longrightarrow> length r = self_n_vars s) \<and>
     (\<forall>j < self_n_vars s. zero_gene (data_counts s) j \<longrightarrow>
        (\<forall>r. varm_replaced s = Some r \<longrightarrow> \<not> r ! j) \<and>
        nan_slot (varm_MoM_dispersions s) j \<and> nan_slot (varm_genewise_dispersions s) j \<and>
        nan_slot (varm_MAP_dispersions s) j \<and> nan_slot (varm_dispersions s) j \<and>
        nan_row (varm_LFC s) j \<and> nan_column (layers_mu_hat s) j \<and>
        nan_column (layers_cooks s) j)"

text \<open>
  The lower bound is not above the upper one, and the upper bound, unless it is NaN, is
  not below the number of samples (the constructor raises it to that).
\<close>

definition bounds_ok :: "'m dds \<Rightarrow> bool" where
  "bounds_ok s \<longleftrightarrow>
     fle (self_min_disp s) (self_max_disp s) \<and>
     fle (Fin (real (length (data_counts s)))) (self_max_disp s)"

section \<open>Properties of the solver\<close>

lemma fmaximum_not_less: "\<not> fless (fmaximum x lo) lo"
  by (cases x; cases lo) (auto simp: fmaximum_def)

lemma mu_of_floor: "m \<in> set (mu_of a beta) \<Longrightarrow> \<not> fless m (min_mu a)"
  unfolding mu_of_def by (auto simp: fmaximum_not_less)

lemma fallback_mu: "fallback N a bi = (tr, Inr (b, m, c)) \<Longrightarrow> m = mu_of a b"
  unfolding fallback_def thenE_def
  by (auto simp: Let_def split: prod.splits if_splits sum.splits)

lemma irls_loop_mu:
  "irls_loop N a bi beta mu dev dr i = (tr, Inr (b, m, c)) \<Longrightarrow> mu = mu_of a beta
     \<Longrightarrow> m = mu_of a b"
proof (induction N a bi beta mu dev dr i rule: irls_loop.induct)
  case (1 N a beta_init beta mu dev dev_ratio i)
  from "1.prems"(1) show ?case
    using "1.IH" "1.prems"(2) fallback_mu
    by (subst (asm) irls_loop.simps) (auto simp: Let_def split: if_splits)
qed

lemma beta_init_low: "beta_init_of lib_1x1 args_low = Inr [Fin (ln (1/10))]"
  by (simp add: beta_init_of_def lib_1x1_def args_low_def shape1_def Let_def of_count_def
      mat_T_def col_def matvec_def dot_def fsum_def)

lemma mu_low: "mu_of args_low [Fin (ln (1/10))] = [Fin (1/2)]"
  by (simp add: mu_of_def args_low_def matvec_def dot_def fsum_def fmaximum_def)

lemma raw_low: "unthresholded_mu args_low [Fin (ln (1/10))] = [Fin (1/10)]"
  by (simp add: unthresholded_mu_def args_low_def matvec_def dot_def fsum_def)

lemma loop_low: "irls_loop lib_1x1 args_low bi b m (Fin 1000) (Fin 1) 0 = ([], Inr (b, m, True))"
  by (subst irls_loop.simps) (simp add: args_low_def)

lemma glm_low:
  "\<exists>h. irls_glm lib_1x1 args_low =
         Inr \<lparr>res_beta = [Fin (ln (1/10))], res_mu = [Fin (1/2)], res_H = h, res_converged = True\<rparr>"
  by (simp add: irls_glm_def irls_glm_traced_def beta_init_low mu_low loop_low thenE_def Let_def)
    (simp add: args_low_def)

text \<open>
  Claim C3.  The claim is that \<open>irls_glm\<close> returns the fitted mean without the \<open>min_mu\<close>
  floor, so that a returned entry can lie below \<open>min_mu\<close>; the comment at the return
  statement says the same.  The code returns the mean as it was last assigned, and every
  assignment applies \<open>np.maximum(..., min_mu)\<close>: whenever \<open>irls_glm\<close> returns, the mean
  it returns is the floored mean of the coefficients it returns, and no entry of it is
  below \<open>min_mu\<close>.
\<close>

theorem irls_glm_mu_floored:
  assumes "irls_glm N a = Inr r"
  shows "res_mu r = mu_of a (res_beta r) \<and> (\<forall>m \<in> set (res_mu r). \<not> fless m (min_mu a))"
proof -
  from assms obtain bi tr b m c where bi: "beta_init_of N a = Inr bi"
    and loop: "irls_loop N a bi bi (mu_of a bi) (Fin 1000) (Fin 1) 0 = (tr, Inr (b, m, c))"
    and r: "res_mu r = m" "res_beta r = b"
    unfolding irls_glm_def irls_glm_traced_def thenE_def
    by (auto simp: Let_def split: if_splits sum.splits prod.splits)
  from irls_loop_mu[OF loop] have "m = mu_of a b" by simp
  with r show ?thesis using mu_of_floor by auto
qed

text \<open>
  On one sample with count 0, size factor 1, copy number 1 and an intercept-only design,
  the mean without the floor is \<open>0.1\<close> and the mean returned is \<open>min_mu = 0.5\<close>.
\<close>

theorem irls_glm_mu_floored_witness:
  "\<exists>r. irls_glm lib_1x1 args_low = Inr r \<and> res_mu r = [Fin (1/2)] \<and>
       res_mu r = mu_of args_low (res_beta r) \<and>
       unthresholded_mu args_low (res_beta r) = [Fin (1/10)] \<and>
       \<not> fless (Fin (1/2)) (min_mu args_low)"
proof -
  from glm_low obtain h where
    g: "irls_glm lib_1x1 args_low =
          Inr \<lparr>res_beta = [Fin (ln (1/10))], res_mu = [Fin (1/2)], res_H = h, res_converged = True\<rparr>"
    by blast
  from irls_glm_mu_floored[OF g] show ?thesis
    by (simp add: g raw_low)
qed

lemma fallback_trace:
  "fst (fallback N a bi) =
     (if \<not> snd (quasi_newton N a bi) \<and> shape1 (design_matrix a) \<le> 2
      then [Minimize, Grid_fit] else [Minimize])"
  unfolding fallback_def by (auto simp: Let_def split: prod.splits)

lemma irls_loop_trace:
  "fst (irls_loop N a bi beta mu dev dr i) = [] \<or>
   fst (irls_loop N a bi beta mu dev dr i) = fst (fallback N a bi)"
proof (induction N a bi beta mu dev dr i rule: irls_loop.induct)
  case (1 N a beta_init beta mu dev dev_ratio i)
  show ?case using "1.IH"
    by (subst (1 2) irls_loop.simps) (auto simp: Let_def)
qed

lemma traced_fst:
  "fst (irls_glm_traced N a) = [] \<or>
   (\<exists>bi. beta_init_of N a = Inr bi \<and> fst (irls_glm_traced N a) = fst (fallback N a bi))"
proof (cases "beta_init_of N a")
  case (Inl e)
  then show ?thesis by (simp add: irls_glm_traced_def)
next
  case (Inr bi)
  have "fst (irls_glm_traced N a) = [] \<or>
        fst (irls_glm_traced N a) = fst (irls_loop N a bi bi (mu_of a bi) (Fin 1000) (Fin 1) 0)"
    by (simp add: irls_glm_traced_def Inr Let_def split: prod.splits)
  with irls_loop_trace[of N a bi bi "mu_of a bi" "Fin 1000" "Fin 1" 0] Inr show ?thesis
    by auto
qed

lemma loop_one:
  "irls_loop lib_1x1 args_one_iter bi b m (Fin 1000) (Fin 1) 0 = fallback lib_1x1 args_one_iter bi"
  by (subst irls_loop.simps) (simp add: args_one_iter_def Let_def)

lemma mapE_first: "f x = Inl e \<Longrightarrow> mapE f (x # xs) = Inl e"
  by (simp add: mapE_def thenE_def)

lemma linspace_nonempty: "1 < n \<Longrightarrow> \<exists>x xs. linspace lo hi n = x # xs"
  by (cases n) (auto simp: linspace_def upt_conv_Cons)

text \<open>
  With the copy-number argument bound to the scalar dispersion, the grid search raises at
  its first evaluation of the loss.
\<close>

lemma grid_fit_scalar_cnv: "grid_fit_beta N c s d1 d2 (Scalar x) mm 60 lo hi = Inl IndexError"
proof -
  obtain g gs where g: "linspace lo hi 60 = g # gs"
    using linspace_nonempty[of 60 lo hi] by auto
  show ?thesis
    unfolding grid_fit_beta_def grid_rows_def
    by (simp add: g Let_def mapE_first grid_loss_def thenE_def)
qed

lemma trace_one_iter:
  "irls_glm_traced lib_1x1 args_one_iter = ([Minimize, Grid_fit], Inl IndexError)"
proof -
  have o: "optimizer args_one_iter = L_BFGS_B" by (simp add: args_one_iter_def)
  have "\<exists>bi. beta_init_of lib_1x1 args_one_iter = Inr bi"
    by (simp add: beta_init_of_def lib_1x1_def args_one_iter_def shape1_def Let_def)
  then obtain bi where bi: "beta_init_of lib_1x1 args_one_iter = Inr bi" by auto
  have q: "quasi_newton lib_1x1 args_one_iter bi = (bi, False)"
    by (simp add: quasi_newton_def lib_1x1_def)
  have s1: "shape1 (design_matrix args_one_iter) = 1"
    by (simp add: args_one_iter_def shape1_def)
  have f: "fallback lib_1x1 args_one_iter bi = ([Minimize, Grid_fit], Inl IndexError)"
    by (simp add: fallback_def q s1 grid_fit_scalar_cnv thenE_def)
  show ?thesis
    by (simp add: irls_glm_traced_def o bi loop_one f thenE_def)
qed

text \<open>
  Claim C6, as stated: the grid search runs only when the design matrix has exactly two
  columns.  It fails on an intercept-only design: with one column, one iteration allowed
  and an optimiser that reports failure, \<open>grid_fit_beta\<close> is called.
\<close>

theorem grid_fit_runs_one_column:
  "Grid_fit \<in> set (fst (irls_glm_traced lib_1x1 args_one_iter)) \<and>
   shape1 (design_matrix args_one_iter) \<noteq> 2"
  by (simp add: trace_one_iter) (simp add: args_one_iter_def shape1_def)

text \<open>
  Claim C6, amended.  The guard in the code is \<open>not res.success and num_vars <= 2\<close>: the
  grid search is called exactly when the iteration has handed over to the quasi-Newton
  minimisation, the minimisation reports failure, and the design matrix has at most two
  columns.  So it is never called on a design of three or more columns, nor when the
  quasi-Newton fit succeeds.
\<close>

theorem grid_fit_runs_iff:
  "Grid_fit \<in> set (fst (irls_glm_traced N a)) \<longleftrightarrow>
     Minimize \<in> set (fst (irls_glm_traced N a)) \<and> shape1 (design_matrix a) \<le> 2 \<and>
     (\<exists>bi. beta_init_of N a = Inr bi \<and> \<not> snd (quasi_newton N a bi))"
  using traced_fst[of N a] by (auto simp: fallback_trace split: if_splits)

theorem grid_fit_runs_iff_witness:
  "Grid_fit \<in> set (fst (irls_glm_traced lib_1x1 args_one_iter)) \<and>
   Minimize \<in> set (fst (irls_glm_traced lib_1x1 args_one_iter)) \<and>
   shape1 (design_matrix args_one_iter) \<le> 2"
  using grid_fit_runs_iff[of lib_1x1 args_one_iter] by (simp add: trace_one_iter)

section \<open>What the stages leave unchanged\<close>

lemmas run_defs = thenE_def item_def attr_def Let_def

lemma thenE_Inr: "thenE m f = Inr y \<longleftrightarrow> (\<exists>x. m = Inr x \<and> f x = Inr y)"
  by (cases m) (auto simp: thenE_def)

text \<open>A stage that first runs the stage before it when needed.\<close>

lemma cascadeE:
  assumes "thenE (if c then f s else Inr s) g = Inr s'"
  obtains t where "(c \<and> f s = Inr t) \<or> (\<not> c \<and> t = s)" and "g t = Inr s'"
  using assms by (auto simp: thenE_Inr split: if_splits)

lemma same_inputs_refl [simp]: "same_inputs s s"
  by (simp add: same_inputs_def)

lemma same_inputs_trans: "same_inputs s t \<Longrightarrow> same_inputs t u \<Longrightarrow> same_inputs s u"
  by (simp add: same_inputs_def)

lemma fit_size_factors_inputs: "fit_size_factors L s = Inr s' \<Longrightarrow> same_inputs s s'"
  by (auto simp: fit_size_factors_def fit_iterate_size_factors_def same_inputs_def run_defs
      split: if_splits prod.splits)

lemma MoM_core_inputs: "MoM_core I s = Inr s' \<Longrightarrow> same_inputs s s'"
  unfolding MoM_core_def
  by (auto simp: run_defs same_inputs_def split: option.splits)

lemma fit_MoM_inputs:
  assumes "fit_MoM_dispersions L I s = Inr s'"
  shows "same_inputs s s'"
proof -
  from assms[unfolded fit_MoM_dispersions_def] obtain t where
    "(layers_normed_counts s = None \<and> fit_size_factors L s = Inr t) \<or>
     (\<not> layers_normed_counts s = None \<and> t = s)" and "MoM_core I t = Inr s'"
    by (rule cascadeE)
  then show ?thesis
    by (auto dest!: fit_size_factors_inputs MoM_core_inputs intro: same_inputs_trans)
qed

lemma set_non_zero_inputs [simp]: "same_inputs s (set_non_zero s)"
  by (simp add: same_inputs_def set_non_zero_def)

lemma genewise_core_inputs: "genewise_core I s = Inr s' \<Longrightarrow> same_inputs s s'"
  unfolding genewise_core_def
  by (auto simp: run_defs same_inputs_def split: if_splits option.splits prod.splits)

lemma fit_genewise_inputs:
  assumes "fit_genewise_dispersions L I s = Inr s'"
  shows "same_inputs s s'"
proof -
  from assms[unfolded fit_genewise_dispersions_def] obtain t where
    t: "(obsm_size_factors s = None \<and> fit_size_factors L s = Inr t) \<or>
        (\<not> obsm_size_factors s = None \<and> t = s)"
    and r: "thenE (fit_MoM_dispersions L I (set_non_zero t)) (genewise_core I) = Inr s'"
    by (rule cascadeE)
  from r obtain u where u: "fit_MoM_dispersions L I (set_non_zero t) = Inr u"
    and g: "genewise_core I u = Inr s'"
    by (auto simp: thenE_Inr)
  from t have "same_inputs s t" by (auto dest: fit_size_factors_inputs)
  moreover have "same_inputs t (set_non_zero t)" by simp
  moreover from u have "same_inputs (set_non_zero t) u" by (rule fit_MoM_inputs)
  moreover from g have "same_inputs u s'" by (rule genewise_core_inputs)
  ultimately show ?thesis by (blast intro: same_inputs_trans)
qed

lemma fit_mean_inputs: "fit_mean_dispersion_trend L s = Inr s' \<Longrightarrow> same_inputs s s'"
  unfolding fit_mean_dispersion_trend_def
  by (auto simp: run_defs same_inputs_def split: option.splits)

lemma parametric_core_inputs: "parametric_core L I s = Inr s' \<Longrightarrow> same_inputs s s'"
  unfolding parametric_core_def
  by (auto simp: run_defs same_inputs_def disp_function_def dest!: fit_mean_inputs
      split: if_splits option.splits sum.splits)

lemma fit_parametric_inputs:
  assumes "fit_parametric_dispersion_trend L I s = Inr s'"
  shows "same_inputs s s'"
proof -
  from assms[unfolded fit_parametric_dispersion_trend_def] obtain t where
    "(varm_genewise_dispersions s = None \<and> fit_genewise_dispersions L I s = Inr t) \<or>
     (\<not> varm_genewise_dispersions s = None \<and> t = s)" and "parametric_core L I t = Inr s'"
    by (rule cascadeE)
  then show ?thesis
    by (auto dest!: fit_genewise_inputs parametric_core_inputs intro: same_inputs_trans)
qed

lemma trend_core_inputs: "trend_core L I s = Inr s' \<Longrightarrow> same_inputs s s'"
  unfolding trend_core_def
  by (auto dest: fit_parametric_inputs fit_mean_inputs split: trend.splits)

lemma fit_trend_inputs:
  assumes "fit_dispersion_trend L I s = Inr s'"
  shows "same_inputs s s'"
proof -
  from assms[unfolded fit_dispersion_trend_def] obtain t where
    "(varm_genewise_dispersions s = None \<and> fit_genewise_dispersions L I s = Inr t) \<or>
     (\<not> varm_genewise_dispersions s = None \<and> t = s)" and "trend_core L I t = Inr s'"
    by (rule cascadeE)
  then show ?thesis
    by (auto dest!: fit_genewise_inputs trend_core_inputs intro: same_inputs_trans)
qed

lemma prior_core_inputs: "prior_core L s = Inr s' \<Longrightarrow> same_inputs s s'"
  unfolding prior_core_def
  by (auto simp: run_defs same_inputs_def split: option.splits)

lemma fit_prior_inputs:
  assumes "fit_dispersion_prior L I s = Inr s'"
  shows "same_inputs s s'"
proof -
  from assms[unfolded fit_dispersion_prior_def] obtain t where
    "(varm_fitted_dispersions s = None \<and> fit_dispersion_trend L I s = Inr t) \<or>
     (\<not> varm_fitted_dispersions s = None \<and> t = s)" and "prior_core L t = Inr s'"
    by (rule cascadeE)
  then show ?thesis
    by (auto dest!: fit_trend_inputs prior_core_inputs intro: same_inputs_trans)
qed

lemma MAP_core_inputs: "MAP_core I s = Inr s' \<Longrightarrow> same_inputs s s'"
  unfolding MAP_core_def
  by (auto simp: run_defs same_inputs_def split: if_splits option.splits prod.splits)

lemma fit_MAP_inputs:
  assumes "fit_MAP_dispersions L I s = Inr s'"
  shows "same_inputs s s'"
proof -
  from assms[unfolded fit_MAP_dispersions_def] obtain t where
    "(uns_prior_disp_var s = None \<and> fit_dispersion_prior L I s = Inr t) \<or>
     (\<not> uns_prior_disp_var s = None \<and> t = s)" and "MAP_core I t = Inr s'"
    by (rule cascadeE)
  then show ?thesis
    by (auto dest!: fit_prior_inputs MAP_core_inputs intro: same_inputs_trans)
qed

lemma LFC_core_inputs: "LFC_core I s = Inr s' \<Longrightarrow> same_inputs s s'"
  unfolding LFC_core_def
  by (auto simp: run_defs same_inputs_def split: if_splits option.splits prod.splits)

lemma fit_LFC_inputs:
  assumes "fit_LFC L I s = Inr s'"
  shows "same_inputs s s'"
proof -
  from assms[unfolded fit_LFC_def] obtain t where
    "(varm_dispersions s = None \<and> fit_MAP_dispersions L I s = Inr t) \<or>
     (\<not> varm_dispersions s = None \<and> t = s)" and "LFC_core I t = Inr s'"
    by (rule cascadeE)
  then show ?thesis
    by (auto dest!: fit_MAP_inputs LFC_core_inputs intro: same_inputs_trans)
qed

lemma cooks_core_inputs: "cooks_core L s = Inr s' \<Longrightarrow> same_inputs s s'"
  unfolding cooks_core_def
  by (auto simp: run_defs same_inputs_def split: if_splits option.splits)

lemma calculate_cooks_inputs:
  assumes "calculate_cooks L I s = Inr s'"
  shows "same_inputs s s'"
proof -
  from assms[unfolded calculate_cooks_def] obtain t where
    "(varm_dispersions s = None \<and> fit_MAP_dispersions L I s = Inr t) \<or>
     (\<not> varm_dispersions s = None \<and> t = s)" and "cooks_core L t = Inr s'"
    by (rule cascadeE)
  then show ?thesis
    by (auto dest!: fit_MAP_inputs cooks_core_inputs intro: same_inputs_trans)
qed

lemma replace_core_inputs: "replace_core L s = Inr s' \<Longrightarrow> same_inputs s s'"
  unfolding replace_core_def
  by (auto simp: run_defs same_inputs_def split: if_splits option.splits)

lemma replace_outliers_inputs:
  assumes "replace_outliers L I s = Inr s'"
  shows "same_inputs s s'"
proof -
  from assms[unfolded replace_outliers_def] obtain t where
    "(layers_cooks s = None \<and> calculate_cooks L I s = Inr t) \<or>
     (\<not> layers_cooks s = None \<and> t = s)" and "replace_core L t = Inr s'"
    by (rule cascadeE)
  then show ?thesis
    by (auto dest!: calculate_cooks_inputs replace_core_inputs intro: same_inputs_trans)
qed

section \<open>Evaluation on the concrete data\<close>

lemmas eval_defs = init_def lib0_def spy_inference_def shape0_def shape1_def thenE_def
  item_def attr_def Let_def fit_size_factors_def fit_iterate_size_factors_def
  fit_MoM_dispersions_def MoM_core_def fit_genewise_dispersions_def genewise_core_def
  non_zero_mask_def set_non_zero_def distinct_rows_eq_columns_def
  fit_mean_dispersion_trend_def fit_dispersion_trend_def trend_core_def
  fit_dispersion_prior_def prior_core_def
  fit_MAP_dispersions_def MAP_core_def fit_LFC_def LFC_core_def rescale_cnv_def is_outlier_def
  cols_def take_idx_def put_cols_def sel_mask_def sel_cols_def full_def full2_def
  clip_def fmaximum_def fminimum_def of_count_def col_means_def col_def fsum_def flag_def
  fsq_def fsub_def

text \<open>A fresh object on the first data set, asked for its log-fold changes.\<close>

lemma run_LFC0:
  "\<exists>s. thenE (init lib0 args0) (fit_LFC lib0 spy_inference) = Inr s \<and>
   obsm_mu_LFC s = Some [[Fin 1.1], [Fin 2.1], [Fin 1.1]] \<and>
   layers_mu_hat s = Some [[Fin 2, NaN], [Fin 4, NaN], [Fin 2, NaN]] \<and>
   varm_genewise_dispersions s = Some [Fin 3, NaN] \<and>
   varm_MAP_dispersions s = Some [Fin 3, NaN] \<and>
   uns_squared_logres s = Some (Fin 0) \<and>
   varm_fitted_dispersions s = Some [Fin 3, Fin 3] \<and>
   varm_dispersions s = Some [Fin 3, NaN]"
  by (simp add: eval_defs args0_def upt_conv_Cons)

section \<open>The constructor\<close>



section \<open>The log-fold-change stage\<close>

text \<open>
  Claim C10.  \<open>fit_LFC\<close> leaves the stored tables unchanged: whenever it returns, also
  after running the earlier stages that were still missing, \<open>data["cnv"]\<close> and
  \<open>data["counts"]\<close> hold what they held before the call; the rescaled copy numbers are a
  new table.
\<close>

theorem fit_LFC_keeps_data:
  assumes "fit_LFC L I s = Inr s'"
  shows "data_cnv s' = data_cnv s \<and> data_counts s' = data_counts s"
  using fit_LFC_inputs[OF assms] by (simp add: same_inputs_def)

theorem fit_LFC_keeps_data_witness:
  "\<exists>s s'. init lib0 args0 = Inr s \<and> fit_LFC lib0 spy_inference s = Inr s' \<and>
     data_cnv s' = a_cnv args0 \<and> data_counts s' = a_counts args0 \<and>
     obsm_mu_LFC s' = Some [[Fin 1.1], [Fin 2.1], [Fin 1.1]]"
proof -
  from run_LFC0 obtain s s' where i: "init lib0 args0 = Inr s"
    and f: "fit_LFC lib0 spy_inference s = Inr s'"
    and m: "obsm_mu_LFC s' = Some [[Fin 1.1], [Fin 2.1], [Fin 1.1]]"
    by (auto simp: thenE_Inr)
  from i have "data_cnv s = a_cnv args0" "data_counts s = a_counts args0"
    by (auto simp: init_def thenE_def split: if_splits sum.splits)
  with fit_LFC_keeps_data[OF f] i f m show ?thesis by auto
qed

section \<open>Masked assignment\<close>

lemma length_put_mask [simp]: "length (put_mask m b v) = length b"
  by (induction m b v rule: put_mask.induct) auto

lemma put_sel_nth:
  "length m = length v \<Longrightarrow> j < length b \<Longrightarrow> j < length v \<Longrightarrow>
     put_mask m b (sel_mask m v) ! j = (if m ! j then v ! j else b ! j)"
proof (induction m arbitrary: b v j)
  case Nil
  then show ?case by simp
next
  case (Cons mh mt)
  then obtain vh vt where v: "v = vh # vt" by (cases v) auto
  from Cons.prems obtain bh bt where b: "b = bh # bt" by (cases b) auto
  show ?case
  proof (cases j)
    case 0
    then show ?thesis by (cases mh) (simp_all add: v b sel_mask_def)
  next
    case (Suc k)
    with Cons.prems v b have "put_mask mt bt (sel_mask mt vt) ! k = (if mt ! k then vt ! k else bt ! k)"
      by (intro Cons.IH) auto
    then show ?thesis by (cases mh) (simp_all add: v b Suc sel_mask_def)
  qed
qed

section \<open>The MAP stage\<close>

lemma MAP_core_again:
  assumes "MAP_core I sc = Inr s1"
  shows "MAP_core I s1 = Inr s1 \<and> uns_prior_disp_var s1 \<noteq> None"
  using assms unfolding MAP_core_def
  by (auto simp: thenE_def item_def attr_def Let_def split: if_splits option.splits prod.splits)


text \<open>
  Claim C9.  A second call of \<open>fit_MAP_dispersions\<close>, on the object as the first call
  left it, returns, changes nothing, and so yields the same MAP dispersions: what the
  stage reads (counts, design matrix, fitted means, trend dispersions, prior variance,
  the mask of non-zero genes, the bounds) it does not write.
\<close>

theorem fit_MAP_twice:
  assumes "fit_MAP_dispersions L I s = Inr s1"
  shows "fit_MAP_dispersions L I s1 = Inr s1 \<and>
         (\<exists>s2. fit_MAP_dispersions L I s1 = Inr s2 \<and>
               varm_MAP_dispersions s2 = varm_MAP_dispersions s1)"
proof -
  from assms obtain sc where "MAP_core I sc = Inr s1"
    by (auto simp: fit_MAP_dispersions_def thenE_Inr)
  from MAP_core_again[OF this] show ?thesis
    by (auto simp: fit_MAP_dispersions_def thenE_def)
qed

lemma fit_size_factors_arrays: "fit_size_factors L s = Inr s' \<Longrightarrow> arrays_ok s \<Longrightarrow> arrays_ok s'"
  by (auto simp: fit_size_factors_def fit_iterate_size_factors_def arrays_ok_def run_defs
      split: if_splits prod.splits)

lemma MoM_core_arrays: "MoM_core I s = Inr s' \<Longrightarrow> arrays_ok s \<Longrightarrow> arrays_ok s'"
  unfolding MoM_core_def
  by (auto simp: run_defs arrays_ok_def split: option.splits)

lemma fit_MoM_arrays:
  assumes "fit_MoM_dispersions L I s = Inr s'" and "arrays_ok s"
  shows "arrays_ok s'"
proof -
  from assms(1)[unfolded fit_MoM_dispersions_def] obtain t where
    "(layers_normed_counts s = None \<and> fit_size_factors L s = Inr t) \<or>
     (\<not> layers_normed_counts s = None \<and> t = s)" and "MoM_core I t = Inr s'"
    by (rule cascadeE)
  with assms(2) show ?thesis
    by (auto dest: fit_size_factors_arrays MoM_core_arrays)
qed

lemma set_non_zero_arrays: "arrays_ok s \<Longrightarrow> arrays_ok (set_non_zero s)"
  by (simp add: arrays_ok_def set_non_zero_def)

lemma genewise_core_arrays: "genewise_core I s = Inr s' \<Longrightarrow> arrays_ok s \<Longrightarrow> arrays_ok s'"
  unfolding genewise_core_def
  by (auto simp: run_defs arrays_ok_def full_def split: if_splits option.splits prod.splits)

lemma fit_genewise_arrays:
  assumes "fit_genewise_dispersions L I s = Inr s'" and "arrays_ok s"
  shows "arrays_ok s'"
proof -
  from assms(1)[unfolded fit_genewise_dispersions_def] obtain t where
    t: "(obsm_size_factors s = None \<and> fit_size_factors L s = Inr t) \<or>
        (\<not> obsm_size_factors s = None \<and> t = s)"
    and r: "thenE (fit_MoM_dispersions L I (set_non_zero t)) (genewise_core I) = Inr s'"
    by (rule cascadeE)
  from r obtain u where u: "fit_MoM_dispersions L I (set_non_zero t) = Inr u"
    and g: "genewise_core I u = Inr s'"
    by (auto simp: thenE_Inr)
  from t assms(2) have "arrays_ok t" by (auto dest: fit_size_factors_arrays)
  then have "arrays_ok (set_non_zero t)" by (rule set_non_zero_arrays)
  with u have "arrays_ok u" by (rule fit_MoM_arrays)
  with g show ?thesis by (rule genewise_core_arrays)
qed

lemma fit_mean_arrays: "fit_mean_dispersion_trend L s = Inr s' \<Longrightarrow> arrays_ok s \<Longrightarrow> arrays_ok s'"
  unfolding fit_mean_dispersion_trend_def
  by (auto simp: run_defs arrays_ok_def full_def split: option.splits)

lemma parametric_core_arrays: "parametric_core L I s = Inr s' \<Longrightarrow> arrays_ok s \<Longrightarrow> arrays_ok s'"
  unfolding parametric_core_def
  by (auto simp: run_defs arrays_ok_def full_def disp_function_def dest!: fit_mean_arrays
      split: if_splits option.splits sum.splits)

lemma fit_parametric_arrays:
  assumes "fit_parametric_dispersion_trend L I s = Inr s'" and "arrays_ok s"
  shows "arrays_ok s'"
proof -
  from assms(1)[unfolded fit_parametric_dispersion_trend_def] obtain t where
    "(varm_genewise_dispersions s = None \<and> fit_genewise_dispersions L I s = Inr t) \<or>
     (\<not> varm_genewise_dispersions s = None \<and> t = s)" and "parametric_core L I t = Inr s'"
    by (rule cascadeE)
  with assms(2) show ?thesis
    by (auto dest: fit_genewise_arrays parametric_core_arrays)
qed

lemma trend_core_arrays: "trend_core L I s = Inr s' \<Longrightarrow> arrays_ok s \<Longrightarrow> arrays_ok s'"
  unfolding trend_core_def
  by (auto dest: fit_parametric_arrays fit_mean_arrays split: trend.splits)

lemma fit_trend_arrays:
  assumes "fit_dispersion_trend L I s = Inr s'" and "arrays_ok s"
  shows "arrays_ok s'"
proof -
  from assms(1)[unfolded fit_dispersion_trend_def] obtain t where
    "(varm_genewise_dispersions s = None \<and> fit_genewise_dispersions L I s = Inr t) \<or>
     (\<not> varm_genewise_dispersions s = None \<and> t = s)" and "trend_core L I t = Inr s'"
    by (rule cascadeE)
  with assms(2) show ?thesis
    by (auto dest: fit_genewise_arrays trend_core_arrays)
qed

lemma prior_core_arrays: "prior_core L s = Inr s' \<Longrightarrow> arrays_ok s \<Longrightarrow> arrays_ok s'"
  unfolding prior_core_def
  by (auto simp: run_defs arrays_ok_def split: option.splits)

lemma fit_prior_arrays:
  assumes "fit_dispersion_prior L I s = Inr s'" and "arrays_ok s"
  shows "arrays_ok s'"
proof -
  from assms(1)[unfolded fit_dispersion_prior_def] obtain t where
    "(varm_fitted_dispersions s = None \<and> fit_dispersion_trend L I s = Inr t) \<or>
     (\<not> varm_fitted_dispersions s = None \<and> t = s)" and "prior_core L t = Inr s'"
    by (rule cascadeE)
  with assms(2) show ?thesis
    by (auto dest: fit_trend_arrays prior_core_arrays)
qed

lemma MAP_core_final:
  assumes "MAP_core I s = Inr s'" and "arrays_ok s"
  shows "\<exists>g f sq MAP d.
           varm_genewise_dispersions s' = Some g \<and> varm_fitted_dispersions s' = Some f \<and>
           uns_squared_logres s' = Some sq \<and> varm_MAP_dispersions s' = Some MAP \<and>
           varm_dispersions s' = Some d \<and>
           (\<forall>j < self_n_vars s'.
              d ! j = (if is_outlier sq (g ! j) (f ! j) then g ! j else MAP ! j))"
  using assms unfolding MAP_core_def arrays_ok_def
  by (auto simp: thenE_def item_def attr_def Let_def full_def put_sel_nth
      split: if_splits option.splits prod.splits)

text \<open>
  Claim C7.  After \<open>fit_MAP_dispersions\<close>, on an object whose gene-wise and trend
  dispersions (where present) have one slot per gene, the final dispersion of every gene
  whose log gene-wise dispersion exceeds \<open>log(fitted) + 2 * sqrt(squared_logres)\<close> is
  the gene-wise estimate, and the final dispersion of every other gene is the MAP
  estimate.
\<close>

theorem MAP_final_dispersions:
  assumes "fit_MAP_dispersions L I s = Inr s'" and "arrays_ok s"
  shows "\<exists>g f sq MAP d.
           varm_genewise_dispersions s' = Some g \<and> varm_fitted_dispersions s' = Some f \<and>
           uns_squared_logres s' = Some sq \<and> varm_MAP_dispersions s' = Some MAP \<and>
           varm_dispersions s' = Some d \<and>
           (\<forall>j < self_n_vars s'.
              d ! j = (if is_outlier sq (g ! j) (f ! j) then g ! j else MAP ! j))"
proof -
  from assms(1) obtain sc where c: "(if uns_prior_disp_var s = None then fit_dispersion_prior L I s else Inr s) = Inr sc"
    and m: "MAP_core I sc = Inr s'"
    by (auto simp: fit_MAP_dispersions_def thenE_Inr)
  from c assms(2) have "arrays_ok sc"
    by (auto dest: fit_prior_arrays split: if_splits)
  from MAP_core_final[OF m this] show ?thesis .
qed


end
